theory Spec2Isabelle
  imports Complex_Main
begin

section \<open>Lynkr: request routing, format conversion and memory, embedded in HOL\<close>

text \<open>
  The JavaScript sources are embedded function by function. JavaScript strings are
  modelled as \<open>string\<close> (lists of 8-bit characters, read as the code points
  U+0000 .. U+00FF); \<open>null\<close>/\<open>undefined\<close> fields are \<open>None\<close>; a \<open>throw\<close> is a
  value of a sum type; module state, configuration and the network are explicit arguments.
\<close>

subsection \<open>JavaScript helpers\<close>

text \<open>\<open>Array.prototype.join\<close> on an array of strings.\<close>

fun join :: "string \<Rightarrow> string list \<Rightarrow> string" where
  "join sep [] = []"
| "join sep [x] = x"
| "join sep (x # y # ys) = x @ sep @ join sep (y # ys)"

text \<open>The operator \<open>a || b\<close> on strings: the empty string is falsy.\<close>

definition str_or :: "string \<Rightarrow> string \<Rightarrow> string" where
  "str_or a b = (if a \<noteq> [] then a else b)"

subsection \<open>Canonical (Anthropic-style) messages\<close>

text \<open>
  A content block is a text block, a tool_use block \<open>{id, name, input}\<close> or a
  tool_result block \<open>{tool_use_id, content}\<close>; the content of a tool result is a string
  or an array of text parts. A message's content is a string or an array of blocks.
\<close>

type_synonym json_object = "(string \<times> string) list"

datatype tool_result_content = ResultText string | ResultParts "string list"

datatype block =
    TextBlock string
  | ToolUseBlock string string json_object
  | ToolResultBlock string tool_result_content

datatype msg_content = Plain string | Blocks "block list"

record message =
  role :: string
  content :: msg_content

subsection \<open>responses-format.js: mapFinishReason\<close>

text \<open>
  \<open>mapping[finishReason] || "end_turn"\<close> reads a property of an object literal, so the
  lookup goes through the literal's own properties and then through \<open>Object.prototype\<close>.
  The values such a read can produce are strings, \<open>undefined\<close>, built-in functions and
  the prototype object itself.
\<close>

datatype js_value = JStr string | JUndefined | JFunction string | JObject string

definition truthy :: "js_value \<Rightarrow> bool" where
  "truthy v = (case v of JStr s \<Rightarrow> s \<noteq> [] | JUndefined \<Rightarrow> False
                 | JFunction _ \<Rightarrow> True | JObject _ \<Rightarrow> True)"

definition object_prototype_functions :: "string list" where
  "object_prototype_functions =
     [''__defineGetter__'', ''__defineSetter__'', ''hasOwnProperty'', ''__lookupGetter__'',
      ''__lookupSetter__'', ''isPrototypeOf'', ''propertyIsEnumerable'', ''toString'',
      ''valueOf'', ''toLocaleString'']"

definition object_prototype_get :: "string \<Rightarrow> js_value" where
  "object_prototype_get k =
     (if k = ''constructor'' then JFunction ''Object''
      else if k = ''__proto__'' then JObject ''Object.prototype''
      else if k \<in> set object_prototype_functions then JFunction k
      else JUndefined)"

definition property_get :: "(string \<times> string) list \<Rightarrow> string \<Rightarrow> js_value" where
  "property_get own k =
     (case map_of own k of Some v \<Rightarrow> JStr v | None \<Rightarrow> object_prototype_get k)"

definition finish_reason_mapping :: "(string \<times> string) list" where
  "finish_reason_mapping =
     [(''stop'', ''end_turn''), (''length'', ''max_tokens''),
      (''tool_calls'', ''tool_use''), (''content_filter'', ''content_filter'')]"

text \<open>A missing finish reason (\<open>undefined\<close>) is \<open>None\<close>; as a property key it reads
  \<open>"undefined"\<close>.\<close>

definition mapFinishReason :: "string option \<Rightarrow> js_value" where
  "mapFinishReason finishReason =
     (let v = property_get finish_reason_mapping
                (case finishReason of None \<Rightarrow> ''undefined'' | Some s \<Rightarrow> s)
      in if truthy v then v else JStr ''end_turn'')"

subsection \<open>databricks.js: consecutive same-role deduplication (invokeOllama, invokeLlamaCpp)\<close>

text \<open>
  Both functions run the same loop: \<open>deduplicated\<close> grows by \<open>push\<close>, \<open>lastRole\<close> starts
  as \<open>null\<close>. The loop is written once, over the projection that reads a message's role.
\<close>

fun dedup_loop :: "('m \<Rightarrow> string) \<Rightarrow> 'm list \<Rightarrow> string option \<Rightarrow> 'm list \<Rightarrow> 'm list" where
  "dedup_loop r deduplicated lastRole [] = deduplicated"
| "dedup_loop r deduplicated lastRole (msg # rest) =
     (if Some (r msg) = lastRole then dedup_loop r deduplicated lastRole rest
      else dedup_loop r (deduplicated @ [msg]) (Some (r msg)) rest)"

definition deduplicate :: "('m \<Rightarrow> string) \<Rightarrow> 'm list \<Rightarrow> 'm list" where
  "deduplicate r msgs = dedup_loop r [] None msgs"

text \<open>invokeOllama: content blocks are flattened to one string before the loop.\<close>

record ollama_message =
  o_role :: string
  o_content :: string

fun block_is_text :: "block \<Rightarrow> bool" where
  "block_is_text (TextBlock _) = True"
| "block_is_text _ = False"

fun block_text :: "block \<Rightarrow> string" where
  "block_text (TextBlock t) = t"
| "block_text _ = []"

definition ollama_convert :: "message \<Rightarrow> ollama_message" where
  "ollama_convert msg =
     \<lparr> o_role = role msg,
       o_content = (case content msg of
                      Plain s \<Rightarrow> str_or s []
                    | Blocks bs \<Rightarrow>
                        str_or (join ''\<newline>'' (map (\<lambda>b. str_or (block_text b) [])
                                                  (filter block_is_text bs))) []) \<rparr>"

definition ollama_messages :: "message list \<Rightarrow> ollama_message list" where
  "ollama_messages msgs = deduplicate o_role (map ollama_convert msgs)"

text \<open>
  invokeLlamaCpp: the messages come from \<open>convertAnthropicMessagesToOpenRouter\<close>
  (openrouter-utils, not among the sources), so its result is an argument; a truthy
  \<open>body.system\<close> is put in front of it, then the loop runs.
\<close>

record openai_message =
  oa_role :: string
  oa_content :: "string option"
  oa_tool_call_id :: "string option"

definition llamacpp_messages :: "string option \<Rightarrow> openai_message list \<Rightarrow> openai_message list" where
  "llamacpp_messages system converted =
     deduplicate oa_role
       (case system of
          None \<Rightarrow> converted
        | Some s \<Rightarrow> if s \<noteq> [] then
                      \<lparr> oa_role = ''system'', oa_content = Some s, oa_tool_call_id = None \<rparr> # converted
                    else converted)"

text \<open>No two neighbours of a role sequence are equal.\<close>

fun no_consecutive_same :: "string list \<Rightarrow> bool" where
  "no_consecutive_same [] = True"
| "no_consecutive_same [x] = True"
| "no_consecutive_same (x # y # ys) = (x \<noteq> y \<and> no_consecutive_same (y # ys))"

subsection \<open>Errors\<close>

text \<open>
  A thrown JavaScript error with the properties the dispatcher reads (\<open>name\<close>,
  \<open>message\<close>, \<open>code\<close>, \<open>status\<close>). \<open>err_kind\<close> is not a JavaScript property: it
  records which class of the error taxonomy the failure belongs to, and no embedded
  function reads it.
\<close>

datatype failure_kind =
    Transport | Timeout | RateLimited | ServerError | CircuitBreakerOpen
  | InvalidRequest | ToolIncompatible | MalformedResponse | Config

record js_error =
  err_name :: string
  err_message :: string
  err_code :: "string option"
  err_status :: "nat option"
  err_kind :: failure_kind

definition new_Error :: "failure_kind \<Rightarrow> string \<Rightarrow> js_error" where
  "new_Error k msg =
     \<lparr> err_name = ''Error'', err_message = msg, err_code = None, err_status = None,
       err_kind = k \<rparr>"

text \<open>\<open>String.prototype.includes\<close>.\<close>

fun starts_with :: "string \<Rightarrow> string \<Rightarrow> bool" where
  "starts_with s [] = True"
| "starts_with [] (c # cs) = False"
| "starts_with (x # xs) (c # cs) = (x = c \<and> starts_with xs cs)"

fun str_includes :: "string \<Rightarrow> string \<Rightarrow> bool" where
  "str_includes [] sub = (sub = [])"
| "str_includes (x # xs) sub = (starts_with (x # xs) sub \<or> str_includes xs sub)"

text \<open>The decimal rendering of a number in a template string.\<close>

function show_nat :: "nat \<Rightarrow> string" where
  "show_nat n =
     (if n < 10 then [char_of (48 + n)]
      else show_nat (n div 10) @ [char_of (48 + n mod 10)])"
  by pat_completeness auto
termination
  by (relation "measure id") auto

subsection \<open>databricks.js: invokeBedrock\<close>

record tool =
  t_name :: string
  t_description :: string
  t_input_schema :: json_object

record canonical_request =
  req_model :: "string option"
  req_messages :: "message list"
  req_system :: "string option"
  req_tools :: "tool list option"
  req_max_tokens :: "nat option"
  req_stream :: "bool option"

text \<open>
  The value of \<open>c.text || c.content || ""\<close> for a content block \<open>c\<close>: a string, or the
  content array of a tool result (an array is truthy, also when empty).
\<close>

datatype text_payload = TextStr string | TextParts "string list"

fun text_or_content :: "block \<Rightarrow> text_payload" where
  "text_or_content (TextBlock t) = TextStr t"
| "text_or_content (ToolUseBlock i n inp) = TextStr []"
| "text_or_content (ToolResultBlock i (ResultText s)) = TextStr s"
| "text_or_content (ToolResultBlock i (ResultParts ps)) = TextParts ps"

text \<open>
  A part of a Converse message. The request path of invokeBedrock only builds
  \<open>{text: ...}\<close> parts; \<open>toolUse\<close> parts are read on the response path; \<open>toolResult\<close>
  parts belong to the Converse schema and appear in neither path.
\<close>

datatype converse_part =
    CText text_payload
  | CToolUse string string json_object
  | CToolResult string "string list"

record converse_message =
  cm_role :: string
  cm_content :: "converse_part list"

record tool_spec =
  ts_name :: string
  ts_description :: string
  ts_json :: json_object

record converse_body =
  cb_messages :: "converse_message list"
  cb_system :: "string list option"
  cb_maxTokens :: "nat option"
  cb_tools :: "tool_spec list option"

definition converse_message_of :: "message \<Rightarrow> converse_message" where
  "converse_message_of msg =
     \<lparr> cm_role = role msg,
       cm_content = (case content msg of
                       Blocks bs \<Rightarrow> map (\<lambda>c. CText (text_or_content c)) bs
                     | Plain s \<Rightarrow> [CText (TextStr s)]) \<rparr>"

text \<open>\<open>String(x)\<close> of a payload inside \<open>join\<close>: an array of part objects prints each
  object as \<open>[object Object]\<close>, separated by commas.\<close>

fun payload_string :: "text_payload \<Rightarrow> string" where
  "payload_string (TextStr s) = s"
| "payload_string (TextParts ps) = join '','' (map (\<lambda>_. ''[object Object]'') ps)"

definition system_content :: "message \<Rightarrow> string" where
  "system_content m =
     (case content m of
        Blocks bs \<Rightarrow> join ''\<newline>'' (map (\<lambda>c. payload_string (text_or_content c)) bs)
      | Plain s \<Rightarrow> s)"

definition truthy_string :: "string option \<Rightarrow> bool" where
  "truthy_string x = (case x of None \<Rightarrow> False | Some s \<Rightarrow> s \<noteq> [])"

text \<open>Steps 2 and 5 of invokeBedrock: tool injection and the Converse request body.
  \<open>STANDARD_TOOLS\<close> (standard-tools.js) is an argument.\<close>

definition bedrock_tools :: "tool list \<Rightarrow> canonical_request \<Rightarrow> tool list" where
  "bedrock_tools standard_tools body =
     (case req_tools body of
        None \<Rightarrow> standard_tools
      | Some ts \<Rightarrow> if ts = [] then standard_tools else ts)"

definition converse_system :: "canonical_request \<Rightarrow> string list option" where
  "converse_system body =
     (let systemMessages = filter (\<lambda>msg. role msg = ''system'') (req_messages body)
      in if truthy_string (req_system body) then Some [the (req_system body)]
         else (case systemMessages of
                 [] \<Rightarrow> None
               | m # _ \<Rightarrow> Some [system_content m]))"

definition to_converse_body :: "tool list \<Rightarrow> canonical_request \<Rightarrow> converse_body" where
  "to_converse_body standard_tools body =
     \<lparr> cb_messages =
         map converse_message_of (filter (\<lambda>msg. role msg \<noteq> ''system'') (req_messages body)),
       cb_system = converse_system body,
       cb_maxTokens = (case req_max_tokens body of
                         None \<Rightarrow> None
                       | Some n \<Rightarrow> if n = 0 then None else Some n),
       cb_tools = (let ts = bedrock_tools standard_tools body
                   in if ts = [] then None
                      else Some (map (\<lambda>t. \<lparr> ts_name = t_name t,
                                            ts_description = t_description t,
                                            ts_json = t_input_schema t \<rparr>) ts)) \<rparr>"

text \<open>The Converse response (\<open>response.json\<close>) and the canonical response built from it.\<close>

record converse_response =
  cr_role :: string
  cr_content :: "converse_part list"
  cr_stopReason :: "string option"
  cr_usage :: "(nat \<times> nat) option"

datatype response_block =
    RText string
  | RToolUse string string json_object
  | RRaw converse_part

fun response_item :: "converse_part \<Rightarrow> response_block" where
  "response_item (CText (TextStr t)) = (if t \<noteq> [] then RText t else RRaw (CText (TextStr t)))"
| "response_item (CText (TextParts ps)) = RRaw (CText (TextParts ps))"
| "response_item (CToolUse i n inp) = RToolUse i n inp"
| "response_item (CToolResult i ps) = RRaw (CToolResult i ps)"

definition bedrock_stop_reason :: "string option \<Rightarrow> string" where
  "bedrock_stop_reason r =
     (if r = Some ''end_turn'' then ''end_turn''
      else if r = Some ''tool_use'' then ''tool_use''
      else if r = Some ''max_tokens'' then ''max_tokens''
      else ''end_turn'')"

record anthropic_response =
  ar_id_time :: nat
  ar_type :: string
  ar_role :: string
  ar_model :: string
  ar_content :: "response_block list"
  ar_stop_reason :: string
  ar_input_tokens :: nat
  ar_output_tokens :: nat

record bedrock_config =
  bedrock_apiKey :: "string option"
  bedrock_modelId :: string
  bedrock_region :: string

definition bedrock_to_anthropic :: "string \<Rightarrow> nat \<Rightarrow> converse_response \<Rightarrow> anthropic_response" where
  "bedrock_to_anthropic modelId now converseResponse =
     \<lparr> ar_id_time = now,
       ar_type = ''message'',
       ar_role = cr_role converseResponse,
       ar_model = modelId,
       ar_content = map response_item (cr_content converseResponse),
       ar_stop_reason = bedrock_stop_reason (cr_stopReason converseResponse),
       ar_input_tokens = (case cr_usage converseResponse of None \<Rightarrow> 0 | Some (i, _) \<Rightarrow> i),
       ar_output_tokens = (case cr_usage converseResponse of None \<Rightarrow> 0 | Some (_, out) \<Rightarrow> out) \<rparr>"

text \<open>
  The outcome of \<open>performJsonRequest\<close> for the Converse request is an argument:
  a thrown error, or a response with its status, its text and its parsed JSON
  (\<open>None\<close> when the body is not a Converse response object).
\<close>

record bedrock_http =
  bh_status :: nat
  bh_text :: string
  bh_json :: "converse_response option"

definition http_ok :: "nat \<Rightarrow> bool" where
  "http_ok status = (200 \<le> status \<and> status \<le> 299)"

definition status_kind :: "nat \<Rightarrow> failure_kind" where
  "status_kind status =
     (if status = 429 then RateLimited else if 500 \<le> status then ServerError
      else InvalidRequest)"

definition invokeBedrock ::
  "bedrock_config \<Rightarrow> tool list \<Rightarrow> nat \<Rightarrow> (converse_body \<Rightarrow> js_error + bedrock_http)
     \<Rightarrow> canonical_request \<Rightarrow> js_error + anthropic_response" where
  "invokeBedrock cfg standard_tools now upstream body =
     (if \<not> truthy_string (bedrock_apiKey cfg)
      then Inl (new_Error Config ''AWS Bedrock requires AWS_BEDROCK_API_KEY (Bearer token).'')
      else case upstream (to_converse_body standard_tools body) of
             Inl e \<Rightarrow> Inl e
           | Inr response \<Rightarrow>
               if \<not> http_ok (bh_status response)
               then Inl (new_Error (status_kind (bh_status response))
                           (''Bedrock Converse API failed: '' @ show_nat (bh_status response)
                             @ '' '' @ bh_text response))
               else (case bh_json response of
                       None \<Rightarrow> Inl ((new_Error MalformedResponse
                                       ''Cannot read properties of undefined'')
                                     \<lparr> err_name := ''TypeError'' \<rparr>)
                     | Some converseResponse \<Rightarrow>
                         Inr (bedrock_to_anthropic (bedrock_modelId cfg) now converseResponse)))"




subsection \<open>An example request for invokeBedrock\<close>

definition example_request :: canonical_request where
  "example_request =
     \<lparr> req_model = Some ''claude-sonnet-4-5'',
       req_messages =
         [\<lparr>role = ''system'', content = Plain ''be brief''\<rparr>,
          \<lparr>role = ''user'', content = Plain ''read /a''\<rparr>,
          \<lparr>role = ''assistant'',
            content = Blocks [TextBlock ''ok'', ToolUseBlock ''toolu_1'' ''Read'' [(''file_path'', ''/a'')]]\<rparr>,
          \<lparr>role = ''user'',
            content = Blocks [ToolResultBlock ''toolu_1'' (ResultText ''contents'')]\<rparr>],
       req_system = None,
       req_tools = None,
       req_max_tokens = Some 1024,
       req_stream = None \<rparr>"

definition example_bedrock_config :: bedrock_config where
  "example_bedrock_config =
     \<lparr> bedrock_apiKey = Some ''ABSK-key'',
       bedrock_modelId = ''anthropic.claude-3-5-sonnet-20241022-v2:0'',
       bedrock_region = ''us-east-1'' \<rparr>"

definition example_upstream :: "converse_body \<Rightarrow> js_error + bedrock_http" where
  "example_upstream cb =
     Inr \<lparr> bh_status = 200, bh_text = ''{}'',
           bh_json = Some \<lparr> cr_role = ''assistant'', cr_content = [CText (TextStr ''Hi'')],
                             cr_stopReason = Some ''end_turn'', cr_usage = Some (1, 1) \<rparr> \<rparr>"



subsection \<open>databricks.js: invokeModel and categorizeFailure\<close>

definition categorizeFailure :: "js_error \<Rightarrow> string" where
  "categorizeFailure error =
     (if err_name error = ''CircuitBreakerError'' \<or> err_code error = Some ''circuit_breaker_open''
      then ''circuit_breaker''
      else if err_name error = ''AbortError'' \<or> err_code error = Some ''ETIMEDOUT''
      then ''timeout''
      else if str_includes (err_message error) ''not configured''
              \<or> str_includes (err_message error) ''not available''
              \<or> err_code error = Some ''ECONNREFUSED''
      then ''service_unavailable''
      else if str_includes (err_message error) ''tool''
              \<or> str_includes (err_message error) ''function''
      then ''tool_incompatible''
      else if err_status error = Some 429 \<or> err_code error = Some ''RATE_LIMITED''
      then ''rate_limited''
      else ''error'')"

text \<open>The \<open>invoke...\<close> function each branch of the two dispatch chains calls.\<close>

datatype backend =
    AzureOpenAI | AzureAnthropic | Ollama | OpenRouter | OpenAI | LlamaCpp | LMStudio
  | Bedrock | Databricks

definition primary_backend :: "string \<Rightarrow> backend" where
  "primary_backend initialProvider =
     (if initialProvider = ''azure-openai'' then AzureOpenAI
      else if initialProvider = ''azure-anthropic'' then AzureAnthropic
      else if initialProvider = ''ollama'' then Ollama
      else if initialProvider = ''openrouter'' then OpenRouter
      else if initialProvider = ''openai'' then OpenAI
      else if initialProvider = ''llamacpp'' then LlamaCpp
      else if initialProvider = ''lmstudio'' then LMStudio
      else if initialProvider = ''bedrock'' then Bedrock
      else Databricks)"

definition fallback_backend :: "string \<Rightarrow> backend" where
  "fallback_backend fallbackProvider =
     (if fallbackProvider = ''azure-openai'' then AzureOpenAI
      else if fallbackProvider = ''azure-anthropic'' then AzureAnthropic
      else if fallbackProvider = ''openrouter'' then OpenRouter
      else if fallbackProvider = ''openai'' then OpenAI
      else if fallbackProvider = ''llamacpp'' then LlamaCpp
      else Databricks)"

record upstream_result =
  ur_ok :: bool
  ur_status :: nat
  ur_text :: string

text \<open>
  What invokeModel reads from its surroundings: the routing configuration
  (\<open>config.modelProvider.preferOllama\<close>, \<open>isFallbackEnabled()\<close>, \<open>getFallbackProvider()\<close>),
  whether each provider's circuit breaker is open, the Ollama endpoint that invokeOllama
  checks first, and the outcome of each backend's request.
\<close>

record dispatch_env =
  env_preferOllama :: bool
  env_fallbackEnabled :: bool
  env_fallbackProvider :: string
  env_breaker_open :: "string \<Rightarrow> bool"
  env_ollama_endpoint :: "string option"
  env_call :: "backend \<Rightarrow> js_error + upstream_result"

record invoke_options =
  forceProvider :: "string option"
  disableFallback :: bool

record model_result =
  mr_result :: upstream_result
  mr_actualProvider :: string
  mr_method :: string
  mr_fallbackReason :: "string option"

datatype dispatch_event =
    PrimaryCall backend
  | FallbackAttempt string string string
  | FallbackCall backend

definition invoke_backend :: "dispatch_env \<Rightarrow> backend \<Rightarrow> js_error + upstream_result" where
  "invoke_backend env b =
     (if b = Ollama \<and> \<not> truthy_string (env_ollama_endpoint env)
      then Inl (new_Error Config ''Ollama endpoint is not configured.'')
      else env_call env b)"

text \<open>
  Modelled from the spec: the circuit breaker's \<open>execute\<close> (circuit-breaker.js is not
  among the sources). An open breaker fails fast with the error class
  \<open>circuit_breaker_open\<close> and does not run the call; otherwise the call runs and its
  result or error passes through.
\<close>

definition circuit_breaker_error :: js_error where
  "circuit_breaker_error =
     \<lparr> err_name = ''CircuitBreakerError'', err_message = ''Circuit breaker is open'',
       err_code = Some ''circuit_breaker_open'', err_status = None,
       err_kind = CircuitBreakerOpen \<rparr>"

definition breaker_execute ::
  "dispatch_env \<Rightarrow> string \<Rightarrow> dispatch_event \<Rightarrow> backend
     \<Rightarrow> (js_error + upstream_result) \<times> dispatch_event list" where
  "breaker_execute env provider ev b =
     (if env_breaker_open env provider then (Inl circuit_breaker_error, [])
      else (invoke_backend env b, [ev]))"

definition primary_attempt ::
  "dispatch_env \<Rightarrow> string \<Rightarrow> (js_error + upstream_result) \<times> dispatch_event list" where
  "primary_attempt env initialProvider =
     breaker_execute env initialProvider (PrimaryCall (primary_backend initialProvider))
       (primary_backend initialProvider)"

definition initial_provider :: "invoke_options \<Rightarrow> string \<Rightarrow> string" where
  "initial_provider options determined =
     (case forceProvider options of Some p \<Rightarrow> p | None \<Rightarrow> determined)"

definition shouldFallback :: "dispatch_env \<Rightarrow> invoke_options \<Rightarrow> string \<Rightarrow> bool" where
  "shouldFallback env options initialProvider =
     (env_preferOllama env \<and> initialProvider = ''ollama'' \<and> env_fallbackEnabled env
      \<and> \<not> disableFallback options)"

text \<open>
  invokeModel. \<open>determined\<close> is the result of \<open>determineProvider(body)\<close>; the second
  component lists, in order, the backend calls made and the fallback attempts recorded.
  The routing method of a primary success is \<open>complexity\<close>, since analyzeComplexity
  always returns a score.
\<close>

definition invokeModel ::
  "dispatch_env \<Rightarrow> invoke_options \<Rightarrow> string
     \<Rightarrow> (js_error + model_result) \<times> dispatch_event list" where
  "invokeModel env options determined =
     (let initialProvider = initial_provider options determined;
          (first, trace1) = primary_attempt env initialProvider
      in case first of
           Inr result \<Rightarrow>
             (Inr \<lparr> mr_result = result, mr_actualProvider = initialProvider,
                    mr_method = ''complexity'', mr_fallbackReason = None \<rparr>, trace1)
         | Inl err \<Rightarrow>
             if \<not> shouldFallback env options initialProvider then (Inl err, trace1)
             else
               let reason = categorizeFailure err;
                   fallbackProvider = env_fallbackProvider env;
                   (second, trace2) =
                      breaker_execute env fallbackProvider
                        (FallbackCall (fallback_backend fallbackProvider))
                        (fallback_backend fallbackProvider);
                   trace = trace1 @ [FallbackAttempt initialProvider fallbackProvider reason] @ trace2
               in case second of
                    Inr fallbackResult \<Rightarrow>
                      (Inr \<lparr> mr_result = fallbackResult, mr_actualProvider = fallbackProvider,
                             mr_method = ''fallback'', mr_fallbackReason = Some reason \<rparr>, trace)
                  | Inl fallbackErr \<Rightarrow> (Inl fallbackErr, trace))"

fun is_fallback_call :: "dispatch_event \<Rightarrow> bool" where
  "is_fallback_call (FallbackCall _) = True"
| "is_fallback_call _ = False"

fun is_fallback_attempt :: "dispatch_event \<Rightarrow> bool" where
  "is_fallback_attempt (FallbackAttempt _ _ _) = True"
| "is_fallback_attempt _ = False"

text \<open>The column \<open>Fallback-eligible\<close> of the specification's error table (section 7).\<close>

fun spec_fallback_eligible :: "failure_kind \<Rightarrow> bool" where
  "spec_fallback_eligible Transport = True"
| "spec_fallback_eligible Timeout = True"
| "spec_fallback_eligible RateLimited = True"
| "spec_fallback_eligible ServerError = True"
| "spec_fallback_eligible CircuitBreakerOpen = True"
| "spec_fallback_eligible InvalidRequest = False"
| "spec_fallback_eligible ToolIncompatible = True"
| "spec_fallback_eligible MalformedResponse = False"
| "spec_fallback_eligible Config = False"

text \<open>Ollama is preferred and its endpoint is not configured; Databricks is the fallback.\<close>

definition unconfigured_ollama_env :: dispatch_env where
  "unconfigured_ollama_env =
     \<lparr> env_preferOllama = True, env_fallbackEnabled = True,
       env_fallbackProvider = ''databricks'', env_breaker_open = (\<lambda>_. False),
       env_ollama_endpoint = None,
       env_call = (\<lambda>_. Inr \<lparr> ur_ok = True, ur_status = 200, ur_text = ''{}'' \<rparr>) \<rparr>"

definition default_options :: invoke_options where
  "default_options = \<lparr> forceProvider = None, disableFallback = False \<rparr>"

subsection \<open>databricks.js: performJsonRequest\<close>

text \<open>
  The network is the outcome of the k-th POST issued; the state counts the POSTs.
  \<open>fetch\<close> either rejects (a thrown error) or yields a response with its status, body
  text and content type.
\<close>

datatype fetch_outcome = FetchFailed js_error | FetchResponse nat string "string option"

record net_state =
  posts :: nat

definition fetch :: "(nat \<Rightarrow> fetch_outcome) \<Rightarrow> net_state \<Rightarrow> fetch_outcome \<times> net_state" where
  "fetch net s = (net (posts s), s \<lparr> posts := Suc (posts s) \<rparr>)"

record json_result =
  jr_ok :: bool
  jr_status :: nat
  jr_json :: "string option"
  jr_text :: "string option"
  jr_stream :: "string option"
  jr_contentType :: "string option"

record api_retry_config =
  cfg_maxRetries :: "nat option"
  cfg_initialDelay :: "nat option"
  cfg_maxDelay :: "nat option"

record retry_options =
  maxRetries :: nat
  initialDelay :: nat
  maxDelay :: nat

text \<open>\<open>config.apiRetry?.x || d\<close>: a missing or zero value gives the default.\<close>

definition num_or :: "nat option \<Rightarrow> nat \<Rightarrow> nat" where
  "num_or x d = (case x of None \<Rightarrow> d | Some n \<Rightarrow> if n = 0 then d else n)"

definition retry_options_of :: "api_retry_config option \<Rightarrow> retry_options" where
  "retry_options_of apiRetry =
     \<lparr> maxRetries = num_or (Option.bind apiRetry cfg_maxRetries) 3,
       initialDelay = num_or (Option.bind apiRetry cfg_initialDelay) 1000,
       maxDelay = num_or (Option.bind apiRetry cfg_maxDelay) 30000 \<rparr>"

type_synonym json_operation = "net_state \<Rightarrow> (js_error + json_result) \<times> net_state"

text \<open>The streaming branch: one \<open>fetch\<close>, the response body handed back as a stream.\<close>

definition streaming_request :: "(nat \<Rightarrow> fetch_outcome) \<Rightarrow> json_operation" where
  "streaming_request net s =
     (case fetch net s of
        (FetchFailed e, s') \<Rightarrow> (Inl e, s')
      | (FetchResponse status text contentType, s') \<Rightarrow>
          (Inr \<lparr> jr_ok = http_ok status, jr_status = status, jr_json = None,
                 jr_text = None, jr_stream = Some text, jr_contentType = contentType \<rparr>, s'))"

text \<open>The callback handed to \<open>withRetry\<close>: one \<open>fetch\<close>, the text read and parsed
  (\<open>is_json\<close> says whether \<open>JSON.parse\<close> accepts the text).\<close>

definition json_attempt :: "(string \<Rightarrow> bool) \<Rightarrow> (nat \<Rightarrow> fetch_outcome) \<Rightarrow> json_operation" where
  "json_attempt is_json net s =
     (case fetch net s of
        (FetchFailed e, s') \<Rightarrow> (Inl e, s')
      | (FetchResponse status text contentType, s') \<Rightarrow>
          (Inr \<lparr> jr_ok = http_ok status, jr_status = status,
                 jr_json = (if is_json text then Some text else None),
                 jr_text = Some text, jr_stream = None, jr_contentType = contentType \<rparr>, s'))"

text \<open>
  performJsonRequest. \<open>withRetry\<close> (retry.js) is not among the sources and is an
  argument; \<open>stream\<close> is \<open>body.stream\<close>, and the branch is taken on \<open>body.stream === true\<close>.
\<close>

definition performJsonRequest ::
  "(json_operation \<Rightarrow> retry_options \<Rightarrow> json_operation) \<Rightarrow> api_retry_config option
     \<Rightarrow> (string \<Rightarrow> bool) \<Rightarrow> (nat \<Rightarrow> fetch_outcome) \<Rightarrow> bool option \<Rightarrow> json_operation" where
  "performJsonRequest withRetry apiRetry is_json net stream s =
     (let isStreaming = (stream = Some True)
      in if isStreaming then streaming_request net s
         else withRetry (json_attempt is_json net) (retry_options_of apiRetry) s)"

text \<open>
  Modelled from the spec: \<open>withRetry\<close> of retry.js, without its delays. An attempt
  fails on a transport error, a status of 500 or more, or status 429; at most
  \<open>maxRetries\<close> attempts are made.
\<close>

definition spec_retryable :: "js_error + json_result \<Rightarrow> bool" where
  "spec_retryable r =
     (case r of Inl e \<Rightarrow> True | Inr res \<Rightarrow> 500 \<le> jr_status res \<or> jr_status res = 429)"

fun spec_retry_loop :: "nat \<Rightarrow> json_operation \<Rightarrow> json_operation" where
  "spec_retry_loop 0 operation s = operation s"
| "spec_retry_loop (Suc n) operation s =
     (case operation s of
        (r, s') \<Rightarrow> if spec_retryable r then spec_retry_loop n operation s' else (r, s'))"

definition spec_withRetry :: "json_operation \<Rightarrow> retry_options \<Rightarrow> json_operation" where
  "spec_withRetry operation opts s = spec_retry_loop (maxRetries opts - 1) operation s"

text \<open>A network whose first POST is answered 503 and every later one 200.\<close>

definition flaky_network :: "nat \<Rightarrow> fetch_outcome" where
  "flaky_network k =
     (if k = 0 then FetchResponse 503 ''busy'' None
      else FetchResponse 200 ''{}'' (Some ''application/json''))"

subsection \<open>Memory extraction: createMemoryWithSurprise and calculateInitialImportance\<close>





























subsection \<open>responses-format.js: convertResponsesToChat\<close>

text \<open>
  An entry of the \<open>input\<close> array is \<open>null\<close> (\<open>None\<close>) or an object whose fields may be
  missing. Content is a string or an array of content parts; a part is \<open>null\<close> or an
  object with optional \<open>type\<close>, \<open>text\<close> and \<open>input_text\<close>.
\<close>

record content_part =
  p_type :: "string option"
  p_text :: "string option"
  p_input_text :: "string option"

datatype entry_content = ContentString string | ContentParts "content_part option list"

record input_entry =
  ie_role :: "string option"
  ie_content :: "entry_content option"
  ie_tool_calls :: "string list option"
  ie_tool_call_id :: "string option"
  ie_name :: "string option"

record chat_message =
  ch_role :: string
  ch_content :: "entry_content option"
  ch_name :: "string option"
  ch_tool_calls :: "string list option"
  ch_tool_call_id :: "string option"

text \<open>Truthiness: the empty string is falsy, every array is truthy.\<close>

definition truthy_content :: "entry_content option \<Rightarrow> bool" where
  "truthy_content c =
     (case c of None \<Rightarrow> False | Some (ContentString s) \<Rightarrow> s \<noteq> []
      | Some (ContentParts _) \<Rightarrow> True)"

definition isValid :: "input_entry option \<Rightarrow> bool" where
  "isValid msg =
     (case msg of
        None \<Rightarrow> False
      | Some m \<Rightarrow> truthy_string (ie_role m)
                  \<and> (truthy_content (ie_content m) \<or> ie_tool_calls m \<noteq> None
                      \<or> truthy_string (ie_tool_call_id m)))"

definition is_text_part :: "content_part option \<Rightarrow> bool" where
  "is_text_part part =
     (case part of
        None \<Rightarrow> False
      | Some p \<Rightarrow> p_type p = Some ''text'' \<or> p_type p = Some ''input_text'')"

definition part_text :: "content_part option \<Rightarrow> string" where
  "part_text part =
     (case part of
        None \<Rightarrow> []
      | Some p \<Rightarrow> if truthy_string (p_text p) then the (p_text p)
                  else if truthy_string (p_input_text p) then the (p_input_text p)
                  else [])"

definition textParts :: "content_part option list \<Rightarrow> string list" where
  "textParts parts = filter (\<lambda>t. length t > 0) (map part_text (filter is_text_part parts))"

definition clean_content :: "entry_content option \<Rightarrow> entry_content option" where
  "clean_content c =
     (if \<not> truthy_content c then None
      else case c of
             Some (ContentParts parts) \<Rightarrow>
               if length (textParts parts) > 0
               then Some (ContentString (join ''\<newline>\<newline>'' (textParts parts)))
               else Some (ContentParts parts)
           | other \<Rightarrow> other)"

definition keep_truthy :: "string option \<Rightarrow> string option" where
  "keep_truthy x = (if truthy_string x then x else None)"

definition clean_message :: "input_entry \<Rightarrow> chat_message" where
  "clean_message msg =
     \<lparr> ch_role = the (ie_role msg),
       ch_content = clean_content (ie_content msg),
       ch_name = keep_truthy (ie_name msg),
       ch_tool_calls = ie_tool_calls msg,
       ch_tool_call_id = keep_truthy (ie_tool_call_id msg) \<rparr>"

text \<open>
  The \<open>input\<close> field: a string, an array, or anything else (\<open>InputOther s\<close> with
  \<open>s = String(input || "")\<close>).
\<close>

datatype responses_input =
    InputString string
  | InputArray "input_entry option list"
  | InputOther string

record responses_request =
  rr_input :: responses_input
  rr_model :: "string option"
  rr_max_tokens :: "nat option"
  rr_stream :: "bool option"

record chat_request =
  cq_model :: string
  cq_messages :: "chat_message list"
  cq_max_tokens :: nat
  cq_stream :: bool

definition user_message :: "string \<Rightarrow> chat_message" where
  "user_message s =
     \<lparr> ch_role = ''user'', ch_content = Some (ContentString s), ch_name = None,
       ch_tool_calls = None, ch_tool_call_id = None \<rparr>"

definition no_valid_messages :: js_error where
  "no_valid_messages =
     new_Error InvalidRequest
       ''Responses API: No valid messages after filtering. All messages were invalid.''"

definition convert_messages :: "responses_input \<Rightarrow> js_error + chat_message list" where
  "convert_messages input =
     (case input of
        InputString s \<Rightarrow> Inr [user_message s]
      | InputArray entries \<Rightarrow>
          (let messages = map (\<lambda>msg. clean_message (the msg)) (filter isValid entries)
           in if length messages = 0 then Inl no_valid_messages else Inr messages)
      | InputOther s \<Rightarrow> Inr [user_message s])"

definition convertResponsesToChat :: "responses_request \<Rightarrow> js_error + chat_request" where
  "convertResponsesToChat responsesRequest =
     (case convert_messages (rr_input responsesRequest) of
        Inl e \<Rightarrow> Inl e
      | Inr messages \<Rightarrow>
          Inr \<lparr> cq_model = (if truthy_string (rr_model responsesRequest)
                             then the (rr_model responsesRequest) else ''gpt-4o''),
                cq_messages = messages,
                cq_max_tokens = num_or (rr_max_tokens responsesRequest) 4096,
                cq_stream = (rr_stream responsesRequest = Some True) \<rparr>)"

text \<open>
  The flattening as the specification words it, for comparison with \<open>clean_content\<close>:
  the text of every part of type \<open>text\<close> or \<open>input_text\<close>, joined by blank lines into a
  single string.
\<close>

definition spec_flatten :: "content_part option list \<Rightarrow> entry_content" where
  "spec_flatten parts =
     ContentString (join ''\<newline>\<newline>'' (map part_text (filter is_text_part parts)))"

definition text_part :: "string \<Rightarrow> content_part option" where
  "text_part t = Some \<lparr> p_type = Some ''text'', p_text = Some t, p_input_text = None \<rparr>"

definition entry_with_content :: "entry_content \<Rightarrow> input_entry option" where
  "entry_with_content c =
     Some \<lparr> ie_role = Some ''user'', ie_content = Some c, ie_tool_calls = None,
            ie_tool_call_id = None, ie_name = None \<rparr>"

definition request_with_input :: "responses_input \<Rightarrow> responses_request" where
  "request_with_input i =
     \<lparr> rr_input = i, rr_model = None, rr_max_tokens = None, rr_stream = None \<rparr>"

subsection \<open>Regular expressions\<close>

text \<open>
  The patterns of the sources use literals, character classes, alternation, repetition,
  the anchors \<open>^\<close> and \<open>$\<close> (no multiline flag) and the word boundary \<open>\b\<close>; none
  has a backreference or a lookaround, so \<open>RegExp.prototype.test\<close> is decided by the set
  of positions a match can reach. A position is the character before it (if any) and
  the rest of the input.
\<close>

definition char_code :: "char \<Rightarrow> nat" where
  "char_code c = of_char c"

definition is_space :: "char \<Rightarrow> bool" where
  "is_space c = (char_code c \<in> {9, 10, 11, 12, 13, 32, 160})"

definition is_digit :: "char \<Rightarrow> bool" where
  "is_digit c = (48 \<le> char_code c \<and> char_code c \<le> 57)"

definition is_word_char :: "char \<Rightarrow> bool" where
  "is_word_char c =
     ((48 \<le> char_code c \<and> char_code c \<le> 57) \<or> (65 \<le> char_code c \<and> char_code c \<le> 90)
      \<or> char_code c = 95 \<or> (97 \<le> char_code c \<and> char_code c \<le> 122))"

text \<open>Case folding of the \<open>i\<close> flag, on character codes.\<close>

definition fold_case :: "char \<Rightarrow> nat" where
  "fold_case c = (if 65 \<le> char_code c \<and> char_code c \<le> 90 then char_code c + 32 else char_code c)"

definition same_letter :: "char \<Rightarrow> char \<Rightarrow> bool" where
  "same_letter a c = (fold_case c = fold_case a)"

text \<open>\<open>.\<close> matches everything but a line terminator.\<close>

definition not_newline :: "char \<Rightarrow> bool" where
  "not_newline c = (char_code c \<noteq> 10 \<and> char_code c \<noteq> 13)"

datatype rx =
    Ch "char \<Rightarrow> bool"
  | Eps
  | Bol
  | Eol
  | WordB
  | Cat rx rx
  | Or rx rx
  | Rep rx

type_synonym rx_pos = "char option \<times> string"

definition step_char :: "(char \<Rightarrow> bool) \<Rightarrow> rx_pos \<Rightarrow> rx_pos list" where
  "step_char p st =
     (case snd st of [] \<Rightarrow> [] | c # cs \<Rightarrow> if p c then [(Some c, cs)] else [])"

definition at_boundary :: "rx_pos \<Rightarrow> bool" where
  "at_boundary st =
     ((case fst st of None \<Rightarrow> False | Some c \<Rightarrow> is_word_char c)
      \<noteq> (case snd st of [] \<Rightarrow> False | c # _ \<Rightarrow> is_word_char c))"

text \<open>Positions are told apart by how much input is left.\<close>

fun add_pos :: "rx_pos \<Rightarrow> rx_pos list \<Rightarrow> rx_pos list" where
  "add_pos st [] = [st]"
| "add_pos st (x # xs) =
     (if length (snd x) = length (snd st) then x # xs else x # add_pos st xs)"

definition merge_pos :: "rx_pos list \<Rightarrow> rx_pos list \<Rightarrow> rx_pos list" where
  "merge_pos xs ys = foldl (\<lambda>acc st. add_pos st acc) xs ys"

definition new_pos :: "rx_pos list \<Rightarrow> rx_pos list \<Rightarrow> rx_pos list" where
  "new_pos seen xs =
     filter (\<lambda>st. length (snd st) \<notin> set (map (\<lambda>x. length (snd x)) seen)) (merge_pos [] xs)"

text \<open>Repetition: the positions reachable by any number of rounds; each round that
  goes on finds a new position, so the rounds are bounded by the input left.\<close>

fun star_closure ::
  "nat \<Rightarrow> (rx_pos \<Rightarrow> rx_pos list) \<Rightarrow> rx_pos list \<Rightarrow> rx_pos list \<Rightarrow> rx_pos list" where
  "star_closure 0 f frontier seen = seen"
| "star_closure (Suc n) f frontier seen =
     (let fresh = new_pos seen (concat (map f frontier))
      in if fresh = [] then seen else star_closure n f fresh (seen @ fresh))"

primrec ends :: "rx \<Rightarrow> rx_pos \<Rightarrow> rx_pos list" where
  "ends (Ch p) st = step_char p st"
| "ends Eps st = [st]"
| "ends Bol st = (if fst st = None then [st] else [])"
| "ends Eol st = (if snd st = [] then [st] else [])"
| "ends WordB st = (if at_boundary st then [st] else [])"
| "ends (Cat a b) st = merge_pos [] (concat (map (ends b) (ends a st)))"
| "ends (Or a b) st = merge_pos (ends a st) (ends b st)"
| "ends (Rep a) st = star_closure (Suc (length (snd st))) (ends a) [st] [st]"

text \<open>\<open>pattern.test(s)\<close>: a match may start at any position of \<open>s\<close>.\<close>

fun test_from :: "rx \<Rightarrow> rx_pos \<Rightarrow> bool" where
  "test_from r (prev, []) = (ends r (prev, []) \<noteq> [])"
| "test_from r (prev, c # cs) = (ends r (prev, c # cs) \<noteq> [] \<or> test_from r (Some c, cs))"

definition rx_test :: "rx \<Rightarrow> string \<Rightarrow> bool" where
  "rx_test r s = test_from r (None, s)"

text \<open>Pattern syntax: a case-insensitive literal, a sequence, a choice, \<open>?\<close>, \<open>+\<close>,
  \<open>\s+\<close>, \<open>\s*\<close>, a character out of a set.\<close>

definition lit :: "string \<Rightarrow> rx" where
  "lit s = foldr (\<lambda>c r. Cat (Ch (same_letter c)) r) s Eps"

definition seq :: "rx list \<Rightarrow> rx" where
  "seq rs = foldr Cat rs Eps"

fun alt :: "rx list \<Rightarrow> rx" where
  "alt [] = Ch (\<lambda>_. False)"
| "alt [r] = r"
| "alt (r # rs) = Or r (alt rs)"

definition words :: "string list \<Rightarrow> rx" where
  "words ws = alt (map lit ws)"

definition opt :: "rx \<Rightarrow> rx" where
  "opt r = Or r Eps"

definition plus :: "rx \<Rightarrow> rx" where
  "plus r = Cat r (Rep r)"

definition sp1 :: rx where
  "sp1 = plus (Ch is_space)"

definition sp0 :: rx where
  "sp0 = Rep (Ch is_space)"

definition one_of :: "string \<Rightarrow> rx" where
  "one_of cs = Ch (\<lambda>c. c \<in> set cs)"

subsection \<open>complexity-analyzer.js: patterns\<close>

text \<open>Every pattern carries the \<open>i\<close> flag. \<open>bounded r\<close> is \<open>\b(r)\b\<close>.\<close>

definition bounded :: "rx \<Rightarrow> rx" where
  "bounded r = seq [WordB, r, WordB]"

definition punct_tail :: "string \<Rightarrow> rx" where
  "punct_tail cs = Rep (Ch (\<lambda>c. is_space c \<or> c \<in> set cs))"

definition PATTERNS_greeting :: rx where
  "PATTERNS_greeting =
     seq [Bol,
          alt [lit ''hi'', lit ''hello'', lit ''hey'',
               seq [lit ''good'', sp0, words [''morning'', ''afternoon'', ''evening'']],
               lit ''howdy'', lit ''greetings'', lit ''sup'', lit ''yo'',
               seq [lit ''thank'', opt (lit ''s'')],
               seq [lit ''thank'', sp0, lit ''you'']],
          punct_tail ''.!?,'', Eol]"

definition PATTERNS_simpleQuestion :: rx where
  "PATTERNS_simpleQuestion =
     seq [Bol,
          alt [seq [lit ''what'', sp1, lit ''is''], lit ''what's'', lit ''define'',
               seq [lit ''who'', sp1, lit ''is''], seq [lit ''when'', sp1, lit ''was''],
               seq [lit ''where'', sp1, lit ''is'']],
          sp1, Ch is_word_char]"

definition PATTERNS_yesNo :: rx where
  "PATTERNS_yesNo =
     seq [Bol,
          alt [seq [lit ''is'', sp1, lit ''it''], seq [lit ''are'', sp1, lit ''there''],
               seq [lit ''can'', sp1, lit ''i''], seq [lit ''do'', sp1, lit ''you''],
               seq [lit ''does'', sp1, lit ''it''], seq [lit ''will'', sp1, lit ''it''],
               seq [lit ''should'', sp1, lit ''i'']],
          sp1]"

definition PATTERNS_technical :: rx where
  "PATTERNS_technical =
     bounded (words [''code'', ''function'', ''class'', ''method'', ''variable'', ''api'',
                     ''database'', ''server'', ''client'', ''module'', ''import'', ''export'',
                     ''async'', ''await'', ''promise'', ''component'', ''interface'', ''type'',
                     ''struct'', ''enum''])"

definition codeComplexity_multiFile :: rx where
  "codeComplexity_multiFile =
     bounded (alt [seq [plus (Ch is_digit), sp0, opt (lit ''+''), sp0, lit ''file'', opt (lit ''s'')],
                   seq [lit ''multiple'', sp1, lit ''file'', opt (lit ''s'')],
                   seq [lit ''across'', sp1, lit ''file'', opt (lit ''s'')],
                   seq [lit ''all'', sp1, lit ''file'', opt (lit ''s'')],
                   seq [lit ''every'', sp1, lit ''file'']])"

definition codeComplexity_architecture :: rx where
  "codeComplexity_architecture =
     bounded (alt [seq [lit ''architect'', opt (lit ''ure'')], lit ''microservice'',
                   lit ''distributed'', seq [lit ''system'', sp1, lit ''design''],
                   lit ''scalab'', lit ''infrastructure''])"

definition codeComplexity_concurrent :: rx where
  "codeComplexity_concurrent =
     bounded (alt [lit ''async'', lit ''concurrent'', lit ''parallel'', lit ''thread'',
                   lit ''worker'', lit ''queue'', lit ''mutex'', lit ''lock'',
                   seq [lit ''race'', sp1, lit ''condition'']])"

definition codeComplexity_security :: rx where
  "codeComplexity_security =
     bounded (alt [lit ''security'', seq [lit ''auth'', opt (lit ''entication'')],
                   seq [lit ''authori'', words [''s'', ''z''], lit ''ation''],
                   lit ''encrypt'', lit ''decrypt'', lit ''vulnerab'', lit ''injection'',
                   lit ''xss'', lit ''csrf'', lit ''sanitiz''])"

definition codeComplexity_testing :: rx where
  "codeComplexity_testing =
     bounded (alt [seq [lit ''test'', sp1, lit ''coverage''],
                   seq [lit ''integration'', sp1, lit ''test''], lit ''e2e'',
                   seq [lit ''end'', Ch not_newline, lit ''to'', Ch not_newline, lit ''end''],
                   seq [lit ''unit'', sp1, lit ''test''], lit ''regression'', lit ''benchmark''])"

definition codeComplexity_performance :: rx where
  "codeComplexity_performance =
     bounded (alt [seq [lit ''optimi'', words [''s'', ''z''], lit ''e''], lit ''performance'',
                   seq [lit ''memory'', sp1, lit ''leak''], lit ''profil'', lit ''bottleneck'',
                   seq [lit ''cach'', words [''e'', ''ing'']]])"

definition codeComplexity_database :: rx where
  "codeComplexity_database =
     bounded (alt [lit ''migration'', lit ''schema'', lit ''index'',
                   seq [lit ''query'', sp1, lit ''optimi''], lit ''transaction'',
                   lit ''rollback'', lit ''backup''])"

definition reasoning_stepByStep :: rx where
  "reasoning_stepByStep =
     bounded (alt [seq [lit ''step'', sp1, lit ''by'', sp1, lit ''step''],
                   seq [lit ''think'', sp1, lit ''through''],
                   seq [lit ''let'', opt (one_of [CHR 39]), lit ''s'', sp1, lit ''reason''],
                   lit ''reasoning'',
                   seq [lit ''chain'', sp1, lit ''of'', sp1, lit ''thought'']])"

definition reasoning_tradeoffs :: rx where
  "reasoning_tradeoffs =
     bounded (alt [seq [lit ''trade'', opt (Ch not_newline), lit ''off''],
                   seq [lit ''pro'', opt (lit ''s''), sp1, lit ''and'', sp1, lit ''con'',
                        opt (lit ''s'')],
                   seq [lit ''compare'', sp1, lit ''option'', opt (lit ''s'')],
                   seq [lit ''weigh'', sp1, opt (seq [lit ''the'', sp1]), lit ''option'',
                        opt (lit ''s'')],
                   seq [lit ''advantage'', opt (lit ''s''), sp1, lit ''and'', sp1,
                        lit ''disadvantage'', opt (lit ''s'')]])"

definition reasoning_analysis :: rx where
  "reasoning_analysis =
     bounded (alt [seq [lit ''analy'', words [''s'', ''z''], lit ''e''], lit ''evaluat'',
                   lit ''assess'',
                   seq [lit ''review'', sp1, words [''the'', ''this'', ''my'']],
                   lit ''audit'', lit ''investigate'', lit ''diagnos''])"

definition reasoning_planning :: rx where
  "reasoning_planning =
     bounded (alt [seq [lit ''plan'', opt (lit ''ning'')], lit ''strategy'', lit ''approach'',
                   lit ''roadmap'', seq [lit ''design'', sp1, lit ''doc''], lit ''rfc'',
                   lit ''proposal''])"

definition reasoning_edgeCases :: rx where
  "reasoning_edgeCases =
     bounded (alt [seq [lit ''edge'', sp1, lit ''case''], seq [lit ''corner'', sp1, lit ''case''],
                   seq [lit ''what'', sp1, lit ''if''], lit ''exception'',
                   seq [lit ''error'', sp1, lit ''handling''], lit ''fallback''])"

definition taskScope_entire :: rx where
  "taskScope_entire =
     seq [WordB,
          alt [lit ''entire'', lit ''whole'', lit ''complete'', lit ''full'',
               seq [lit ''all'', sp1, lit ''of'']],
          sp1,
          words [''codebase'', ''project'', ''app'', ''application'', ''system'', ''repo'']]"

definition taskScope_refactor :: rx where
  "taskScope_refactor =
     bounded (alt [lit ''refactor'', lit ''restructure'',
                   seq [lit ''reorgani'', words [''s'', ''z''], lit ''e''], lit ''rewrite'',
                   lit ''overhaul'', lit ''migrate''])"

definition taskScope_implement :: rx where
  "taskScope_implement =
     seq [WordB, words [''implement'', ''build'', ''create'', ''develop''], sp1,
          opt (seq [lit ''a'', sp1]), opt (seq [lit ''new'', sp1]),
          words [''feature'', ''system'', ''module'', ''service'', ''api'']]"

definition taskScope_fromScratch :: rx where
  "taskScope_fromScratch =
     bounded (alt [seq [lit ''from'', sp1, lit ''scratch''], seq [lit ''ground'', sp1, lit ''up''],
                   lit ''greenfield'', lit ''bootstrap'', lit ''scaffold''])"

definition FORCE_CLOUD_PATTERNS :: "rx list" where
  "FORCE_CLOUD_PATTERNS =
     [bounded (alt [seq [lit ''security'', sp1, words [''audit'', ''review'', ''assessment'']],
                    seq [lit ''penetration'', sp1, lit ''test''],
                    seq [lit ''vulnerability'', sp1, lit ''scan'']]),
      bounded (alt [seq [lit ''architect'', opt (lit ''ure''), sp1,
                         words [''review'', ''design'', ''diagram'']],
                    seq [lit ''system'', sp1, lit ''design'']]),
      bounded (alt [seq [lit ''refactor'', sp1,
                         alt [lit ''entire'', lit ''whole'', lit ''all'',
                              seq [lit ''the'', sp1, lit ''entire'']]],
                    seq [lit ''complete'', sp1, lit ''rewrite'']]),
      bounded (alt [seq [lit ''code'', sp1, lit ''review''], seq [lit ''pr'', sp1, lit ''review''],
                    seq [lit ''pull'', sp1, lit ''request'', sp1, lit ''review'']]),
      bounded (seq [lit ''debug'', opt (lit ''ging''), sp1,
                    words [''complex'', ''difficult'', ''hard'', ''tricky'']]),
      bounded (seq [lit ''production'', sp1,
                    words [''issue'', ''bug'', ''incident'', ''outage'']])]"

definition FORCE_LOCAL_PATTERNS :: "rx list" where
  "FORCE_LOCAL_PATTERNS =
     [seq [Bol,
           alt [lit ''hi'', lit ''hello'', lit ''hey'', seq [lit ''thank'', opt (lit ''s'')],
                seq [lit ''thank'', sp0, lit ''you''], lit ''bye'', lit ''goodbye''],
           punct_tail ''.!?'', Eol],
      seq [Bol, lit ''what'', sp1, words [''time'', ''day'', ''date''], sp1, lit ''is'', sp1,
           lit ''it''],
      seq [Bol,
           alt [lit ''yes'', lit ''no'', lit ''ok'', lit ''okay'', lit ''sure'',
                seq [lit ''got'', sp1, lit ''it''], lit ''understood''],
           punct_tail ''.!?'', Eol],
      seq [Bol,
           alt [lit ''help'', lit ''menu'', seq [lit ''command'', opt (lit ''s'')],
                seq [lit ''option'', opt (lit ''s'')]],
           punct_tail ''.!?'', Eol]]"

subsection \<open>complexity-analyzer.js: scoring\<close>

text \<open>extractContent: the text of the last user message.\<close>

definition message_text :: "message \<Rightarrow> string" where
  "message_text msg =
     (case content msg of
        Plain s \<Rightarrow> s
      | Blocks bs \<Rightarrow>
          join '' '' (map (\<lambda>b. str_or (block_text b) []) (filter block_is_text bs)))"

fun last_user_text :: "message list \<Rightarrow> string" where
  "last_user_text [] = []"
| "last_user_text (msg # earlier) =
     (if role msg = ''user'' then message_text msg else last_user_text earlier)"

definition extractContent :: "canonical_request \<Rightarrow> string" where
  "extractContent payload = last_user_text (rev (req_messages payload))"

definition message_chars :: "message \<Rightarrow> nat" where
  "message_chars msg =
     (case content msg of
        Plain s \<Rightarrow> length s
      | Blocks bs \<Rightarrow> sum_list (map (\<lambda>b. length (block_text b)) bs))"

definition estimateTokens :: "canonical_request \<Rightarrow> nat" where
  "estimateTokens payload = (sum_list (map message_chars (req_messages payload)) + 3) div 4"

definition scoreTokens :: "canonical_request \<Rightarrow> nat" where
  "scoreTokens payload =
     (let tokens = estimateTokens payload
      in if tokens < 500 then 0
         else if tokens < 1000 then 4
         else if tokens < 2000 then 8
         else if tokens < 4000 then 12
         else if tokens < 8000 then 16
         else 20)"

definition scoreTools :: "canonical_request \<Rightarrow> nat" where
  "scoreTools payload =
     (let toolCount = (case req_tools payload of None \<Rightarrow> 0 | Some ts \<Rightarrow> length ts)
      in if toolCount = 0 then 0
         else if toolCount \<le> 3 then 4
         else if toolCount \<le> 6 then 8
         else if toolCount \<le> 10 then 12
         else if toolCount \<le> 15 then 16
         else 20)"

record task_type =
  tt_score :: nat
  tt_reason :: string

definition matches_any :: "rx list \<Rightarrow> string \<Rightarrow> bool" where
  "matches_any patterns s = list_ex (\<lambda>pattern. rx_test pattern s) patterns"

definition scoreTaskType :: "string \<Rightarrow> task_type" where
  "scoreTaskType content' =
     (if matches_any FORCE_LOCAL_PATTERNS content'
      then \<lparr> tt_score = 0, tt_reason = ''force_local'' \<rparr>
      else if matches_any FORCE_CLOUD_PATTERNS content'
      then \<lparr> tt_score = 25, tt_reason = ''force_cloud'' \<rparr>
      else if rx_test PATTERNS_greeting content'
      then \<lparr> tt_score = 0, tt_reason = ''greeting'' \<rparr>
      else if rx_test PATTERNS_simpleQuestion content' \<and> \<not> rx_test PATTERNS_technical content'
      then \<lparr> tt_score = 3, tt_reason = ''simple_question'' \<rparr>
      else if rx_test PATTERNS_yesNo content'
      then \<lparr> tt_score = 2, tt_reason = ''yes_no_question'' \<rparr>
      else if rx_test taskScope_entire content'
      then \<lparr> tt_score = 22, tt_reason = ''entire_codebase'' \<rparr>
      else if rx_test taskScope_fromScratch content'
      then \<lparr> tt_score = 20, tt_reason = ''from_scratch'' \<rparr>
      else if rx_test taskScope_implement content'
      then \<lparr> tt_score = 18, tt_reason = ''new_implementation'' \<rparr>
      else if rx_test taskScope_refactor content'
      then \<lparr> tt_score = 16, tt_reason = ''refactoring'' \<rparr>
      else if rx_test PATTERNS_technical content'
      then \<lparr> tt_score = 10, tt_reason = ''technical_content'' \<rparr>
      else \<lparr> tt_score = 5, tt_reason = ''general'' \<rparr>)"

definition points :: "rx \<Rightarrow> nat \<Rightarrow> string \<Rightarrow> nat" where
  "points pattern n s = (if rx_test pattern s then n else 0)"

definition scoreCodeComplexity :: "string \<Rightarrow> nat" where
  "scoreCodeComplexity s =
     min (points codeComplexity_multiFile 5 s + points codeComplexity_architecture 5 s
          + points codeComplexity_concurrent 3 s + points codeComplexity_security 4 s
          + points codeComplexity_testing 2 s + points codeComplexity_performance 3 s
          + points codeComplexity_database 3 s) 20"

definition scoreReasoning :: "string \<Rightarrow> nat" where
  "scoreReasoning s =
     min (points reasoning_stepByStep 4 s + points reasoning_tradeoffs 4 s
          + points reasoning_analysis 3 s + points reasoning_planning 3 s
          + points reasoning_edgeCases 2 s) 15"

text \<open>\<open>mode\<close> is \<open>config.smartToolSelection?.mode\<close>.\<close>

definition getThreshold :: "string option \<Rightarrow> nat" where
  "getThreshold mode =
     (if mode = Some ''aggressive'' then 60
      else if mode = Some ''conservative'' then 25
      else 40)"

record complexity_analysis =
  ca_score :: nat
  ca_threshold :: nat
  ca_mode :: string
  ca_recommendation :: string
  ca_tokens :: nat
  ca_tools :: nat
  ca_taskType :: task_type
  ca_codeComplexity :: nat
  ca_reasoning :: nat
  ca_conversationBonus :: nat

definition analyzeComplexity :: "string option \<Rightarrow> canonical_request \<Rightarrow> complexity_analysis" where
  "analyzeComplexity mode payload =
     (let content' = extractContent payload;
          messageCount = length (req_messages payload);
          tokenScore = scoreTokens payload;
          toolScore = scoreTools payload;
          taskTypeResult = scoreTaskType content';
          codeComplexityResult = scoreCodeComplexity content';
          reasoningResult = scoreReasoning content';
          totalScore = min (tokenScore + toolScore + tt_score taskTypeResult
                            + codeComplexityResult + reasoningResult) 100;
          conversationBonus = (if messageCount > 10 then 5 else if messageCount > 5 then 2 else 0);
          adjustedScore = min (totalScore + conversationBonus) 100;
          threshold = getThreshold mode;
          recommendation =
            (if tt_reason taskTypeResult = ''force_local'' then ''local''
             else if tt_reason taskTypeResult = ''force_cloud'' then ''cloud''
             else if adjustedScore \<ge> threshold then ''cloud'' else ''local'')
      in \<lparr> ca_score = adjustedScore, ca_threshold = threshold,
           ca_mode = (case mode of None \<Rightarrow> ''heuristic'' | Some m \<Rightarrow> m),
           ca_recommendation = recommendation, ca_tokens = tokenScore, ca_tools = toolScore,
           ca_taskType = taskTypeResult, ca_codeComplexity = codeComplexityResult,
           ca_reasoning = reasoningResult, ca_conversationBonus = conversationBonus \<rparr>)"

definition user_request :: "string \<Rightarrow> canonical_request" where
  "user_request s =
     \<lparr> req_model = None, req_messages = [\<lparr> role = ''user'', content = Plain s \<rparr>],
       req_system = None, req_tools = None, req_max_tokens = None, req_stream = None \<rparr>"

subsection \<open>Memory search: prepareFTS5Query and searchMemories\<close>

definition dquote :: char where
  "dquote = CHR 0x22"

text \<open>\<open>String.prototype.trim\<close>.\<close>

fun trim_end :: "string \<Rightarrow> string" where
  "trim_end [] = []"
| "trim_end (c # cs) =
     (case trim_end cs of
        [] \<Rightarrow> if is_space c then [] else [c]
      | d # ds \<Rightarrow> c # d # ds)"

definition trim :: "string \<Rightarrow> string" where
  "trim s = trim_end (dropWhile is_space s)"

text \<open>
  \<open>replace(/<[^>]+>/g, ' ')\<close>: at a \<open><\<close> the greedy class takes every character up
  to the next \<open>>\<close>; there is a match when that stretch is not empty and a \<open>>\<close> follows.
\<close>

function strip_tags :: "string \<Rightarrow> string" where
  "strip_tags [] = []"
| "strip_tags (c # cs) =
     (if c = CHR ''<'' \<and> takeWhile (\<lambda>x. x \<noteq> CHR ''>'') cs \<noteq> []
         \<and> dropWhile (\<lambda>x. x \<noteq> CHR ''>'') cs \<noteq> []
      then CHR '' '' # strip_tags (tl (dropWhile (\<lambda>x. x \<noteq> CHR ''>'') cs))
      else c # strip_tags cs)"
  by pat_completeness auto
termination
proof (relation "measure length")
  fix c :: char and cs :: string
  have "length (tl (dropWhile (\<lambda>x. x \<noteq> CHR ''>'') cs)) \<le> length cs"
    using length_dropWhile_le [of "\<lambda>x. x \<noteq> CHR ''>''" cs] by simp
  then show "(tl (dropWhile (\<lambda>x. x \<noteq> CHR ''>'') cs), c # cs) \<in> measure length"
    by simp
qed simp_all

text \<open>\<open>replace(/\s+/g, ' ')\<close>: \<open>in_run\<close> says that the previous character was
  whitespace, already replaced.\<close>

fun collapse :: "bool \<Rightarrow> string \<Rightarrow> string" where
  "collapse in_run [] = []"
| "collapse in_run (c # cs) =
     (if is_space c then (if in_run then collapse True cs else CHR '' '' # collapse True cs)
      else c # collapse False cs)"

definition squeeze :: "string \<Rightarrow> string" where
  "squeeze s = trim (collapse False s)"

definition fts_special :: "string" where
  "fts_special = ''*()<>-:[]|,+=?!;/@#$%^&{}'' @ [CHR 0x5C]"

definition blank_special :: "string \<Rightarrow> string" where
  "blank_special s = map (\<lambda>c. if c \<in> set fts_special then CHR '' '' else c) s"

definition escape_quotes :: "string \<Rightarrow> string" where
  "escape_quotes s = concat (map (\<lambda>c. if c = dquote then [dquote, dquote] else [c]) s)"

definition blank_other :: "string \<Rightarrow> string" where
  "blank_other s =
     map (\<lambda>c. if is_word_char c \<or> is_space c \<or> c = dquote then c else CHR '' '') s"

definition fts5_operator :: rx where
  "fts5_operator = bounded (words [''AND'', ''OR'', ''NOT''])"

definition strip_and_squeeze :: "string \<Rightarrow> string" where
  "strip_and_squeeze query = squeeze (strip_tags (trim query))"

definition hasFTS5Operators :: "string \<Rightarrow> bool" where
  "hasFTS5Operators query = rx_test fts5_operator (strip_and_squeeze query)"

definition sanitized :: "string \<Rightarrow> string" where
  "sanitized query =
     squeeze (blank_other (escape_quotes (squeeze (blank_special (strip_and_squeeze query)))))"

definition prepareFTS5Query :: "string \<Rightarrow> string" where
  "prepareFTS5Query query =
     (if strip_and_squeeze query = [] then [dquote] @ ''empty query'' @ [dquote]
      else if \<not> hasFTS5Operators query then [dquote] @ sanitized query @ [dquote]
      else sanitized query)"

text \<open>
  searchMemories. The database is an argument: running the prepared statement with the
  FTS query either throws (the engine rejects the query) or yields rows; \<open>convert\<close> is
  the row mapping, \<open>None\<close> when \<open>JSON.parse\<close> of the row's metadata throws. The result
  is \<open>Inr\<close> of the list returned, \<open>Inl\<close> would be an error thrown to the caller.
\<close>

definition searchMemories ::
  "(string \<Rightarrow> js_error + 'r list) \<Rightarrow> ('r \<Rightarrow> 'm option) \<Rightarrow> string option \<Rightarrow> js_error + 'm list" where
  "searchMemories db_all convert query =
     (if \<not> truthy_string query then Inr []
      else case db_all (prepareFTS5Query (the query)) of
             Inl err \<Rightarrow> Inr []
           | Inr rows \<Rightarrow>
               if list_all (\<lambda>row. convert row \<noteq> None) rows
               then Inr (map (\<lambda>row. the (convert row)) rows)
               else Inr [])"

text \<open>
  Modelled from the SQLite FTS5 query syntax (the engine is not part of the
  repository), for queries over letters, digits, underscore, blanks and double quotes,
  the only characters prepareFTS5Query lets through. A query is a sequence of tokens:
  a quoted string (\<open>""\<close> inside stands for one quote), a bareword, or one of the
  case-sensitive keywords AND, OR, NOT. It parses when it starts and ends with a
  string or bareword and every keyword stands between two of them.
\<close>

datatype fts5_token = Phrase string | KwAnd | KwOr | KwNot

fun scan_quoted :: "string \<Rightarrow> (string \<times> string) option" where
  "scan_quoted [] = None"
| "scan_quoted [c] = (if c = dquote then Some ([], []) else None)"
| "scan_quoted (c # d # ds) =
     (if c = dquote
      then (if d = dquote
            then map_option (\<lambda>(t, rest). (dquote # t, rest)) (scan_quoted ds)
            else Some ([], d # ds))
      else map_option (\<lambda>(t, rest). (c # t, rest)) (scan_quoted (d # ds)))"

definition is_bareword_char :: "char \<Rightarrow> bool" where
  "is_bareword_char c = (is_word_char c \<or> 128 \<le> char_code c \<or> char_code c = 26)"

definition fts5_space :: "char \<Rightarrow> bool" where
  "fts5_space c = (char_code c \<in> {9, 10, 13, 32})"

definition bareword_token :: "string \<Rightarrow> fts5_token" where
  "bareword_token w =
     (if w = ''AND'' then KwAnd else if w = ''OR'' then KwOr
      else if w = ''NOT'' then KwNot else Phrase w)"

fun fts5_tokens :: "nat \<Rightarrow> string \<Rightarrow> fts5_token list option" where
  "fts5_tokens n [] = Some []"
| "fts5_tokens 0 (c # cs) = None"
| "fts5_tokens (Suc n) (c # cs) =
     (if fts5_space c then fts5_tokens n cs
      else if c = dquote
      then (case scan_quoted cs of
              None \<Rightarrow> None
            | Some (t, rest) \<Rightarrow> map_option (\<lambda>ts. Phrase t # ts) (fts5_tokens n rest))
      else if is_bareword_char c
      then map_option (\<lambda>ts. bareword_token (takeWhile is_bareword_char (c # cs)) # ts)
             (fts5_tokens n (dropWhile is_bareword_char cs))
      else None)"

fun expect_phrase :: "fts5_token list \<Rightarrow> bool"
  and after_phrase :: "fts5_token list \<Rightarrow> bool" where
  "expect_phrase [] = False"
| "expect_phrase (Phrase t # ts) = after_phrase ts"
| "expect_phrase (KwAnd # ts) = False"
| "expect_phrase (KwOr # ts) = False"
| "expect_phrase (KwNot # ts) = False"
| "after_phrase [] = True"
| "after_phrase (Phrase t # ts) = after_phrase ts"
| "after_phrase (KwAnd # ts) = expect_phrase ts"
| "after_phrase (KwOr # ts) = expect_phrase ts"
| "after_phrase (KwNot # ts) = expect_phrase ts"

definition fts5_accepts :: "string \<Rightarrow> bool" where
  "fts5_accepts q =
     (case fts5_tokens (length q) q of None \<Rightarrow> False | Some ts \<Rightarrow> expect_phrase ts)"

text \<open>Every double quote of the string is one of two neighbouring quotes.\<close>

fun paired :: "string \<Rightarrow> bool" where
  "paired [] = True"
| "paired [c] = (c \<noteq> dquote)"
| "paired (c # d # r) = (if c = dquote then d = dquote \<and> paired r else paired (d # r))"

definition example_engine_error :: js_error where
  "example_engine_error =
     \<lparr> err_name = ''SqliteError'', err_message = ''fts5: syntax error near AND'',
       err_code = Some ''SQLITE_ERROR'', err_status = None, err_kind = InvalidRequest \<rparr>"

section \<open>Theorems\<close>

subsection \<open>Deduplication of consecutive roles\<close>

lemma no_consecutive_same_snoc:
  "no_consecutive_same (xs @ [x]) =
     (no_consecutive_same xs \<and> (xs = [] \<or> last xs \<noteq> x))"
  by (induction xs rule: no_consecutive_same.induct) auto

lemma dedup_loop_invariant:
  assumes "no_consecutive_same (map r acc)"
    and "lastRole = (if acc = [] then None else Some (r (last acc)))"
  shows "no_consecutive_same (map r (dedup_loop r acc lastRole msgs))"
  using assms
proof (induction msgs arbitrary: acc lastRole)
  case Nil
  then show ?case by simp
next
  case (Cons m ms)
  show ?case
  proof (cases "Some (r m) = lastRole")
    case True
    then show ?thesis using Cons by simp
  next
    case False
    have step: "no_consecutive_same (map r (acc @ [m]))"
      using Cons.prems False
      by (auto simp: no_consecutive_same_snoc last_map split: if_splits)
    have "no_consecutive_same (map r (dedup_loop r (acc @ [m]) (Some (r m)) ms))"
      by (rule Cons.IH [OF step]) simp
    then show ?thesis using False by simp
  qed
qed

lemma dedup_loop_append:
  "dedup_loop r acc lastRole (xs @ ys) =
     dedup_loop r (dedup_loop r acc lastRole xs)
       (if dedup_loop r acc lastRole xs = [] then None
        else Some (r (last (dedup_loop r acc lastRole xs)))) ys"
  if "lastRole = (if acc = [] then None else Some (r (last acc)))"
  using that
proof (induction xs arbitrary: acc lastRole)
  case Nil
  then show ?case by simp
next
  case (Cons x xs)
  show ?case
  proof (cases "Some (r x) = lastRole")
    case True
    then show ?thesis using Cons by simp
  next
    case False
    have "dedup_loop r (acc @ [x]) (Some (r x)) (xs @ ys) =
          dedup_loop r (dedup_loop r (acc @ [x]) (Some (r x)) xs)
           (if dedup_loop r (acc @ [x]) (Some (r x)) xs = [] then None
            else Some (r (last (dedup_loop r (acc @ [x]) (Some (r x)) xs)))) ys"
      by (rule Cons.IH) simp
    then show ?thesis using False by simp
  qed
qed

lemma deduplicate_snoc:
  "deduplicate r (msgs @ [m]) =
     (if deduplicate r msgs \<noteq> [] \<and> r (last (deduplicate r msgs)) = r m
      then deduplicate r msgs else deduplicate r msgs @ [m])"
  unfolding deduplicate_def
  by (subst dedup_loop_append) auto

lemma deduplicate_no_consecutive:
  "no_consecutive_same (map r (deduplicate r msgs))"
  unfolding deduplicate_def by (rule dedup_loop_invariant) simp_all

text \<open>
  Claim C4. For every canonical message list sent to Ollama, and every converted
  message list (with any system prompt) sent to llama.cpp, the emitted sequence has no
  two consecutive messages with the same role; walking the sequence, a message is
  dropped exactly when its role equals the role of the last message emitted so far,
  and is appended otherwise.
\<close>

theorem local_targets_no_consecutive_same_role:
  "no_consecutive_same (map o_role (ollama_messages msgs))
   \<and> no_consecutive_same (map oa_role (llamacpp_messages system converted))
   \<and> deduplicate r (ms @ [m]) =
       (if deduplicate r ms \<noteq> [] \<and> r (last (deduplicate r ms)) = r m
        then deduplicate r ms else deduplicate r ms @ [m])"
  unfolding ollama_messages_def llamacpp_messages_def
  by (simp only: deduplicate_no_consecutive deduplicate_snoc simp_thms)

theorem local_targets_no_consecutive_same_role_witness:
  "map o_role (ollama_messages
       [\<lparr>role = ''user'', content = Plain ''a''\<rparr>,
        \<lparr>role = ''user'', content = Blocks [TextBlock ''b'']\<rparr>,
        \<lparr>role = ''assistant'', content = Plain ''c''\<rparr>]) = [''user'', ''assistant'']
   \<and> no_consecutive_same (map o_role (ollama_messages
       [\<lparr>role = ''user'', content = Plain ''a''\<rparr>,
        \<lparr>role = ''user'', content = Blocks [TextBlock ''b'']\<rparr>,
        \<lparr>role = ''assistant'', content = Plain ''c''\<rparr>]))"
  using local_targets_no_consecutive_same_role
    [of "[\<lparr>role = ''user'', content = Plain ''a''\<rparr>,
          \<lparr>role = ''user'', content = Blocks [TextBlock ''b'']\<rparr>,
          \<lparr>role = ''assistant'', content = Plain ''c''\<rparr>]"]
  by (simp add: ollama_messages_def deduplicate_def ollama_convert_def str_or_def)

subsection \<open>Finish-reason mapping\<close>

lemma mapFinishReason_listed:
  "mapFinishReason (Some ''stop'') = JStr ''end_turn''"
  "mapFinishReason (Some ''tool_calls'') = JStr ''tool_use''"
  "mapFinishReason (Some ''length'') = JStr ''max_tokens''"
  "mapFinishReason (Some ''content_filter'') = JStr ''content_filter''"
  "mapFinishReason None = JStr ''end_turn''"
  by (simp_all add: mapFinishReason_def property_get_def finish_reason_mapping_def
      object_prototype_get_def object_prototype_functions_def truthy_def)

lemma mapFinishReason_default:
  assumes "s \<notin> fst ` set finish_reason_mapping"
    and "s \<notin> set (''constructor'' # ''__proto__'' # object_prototype_functions)"
  shows "mapFinishReason (Some s) = JStr ''end_turn''"
proof -
  have "map_of finish_reason_mapping s = None"
    using assms(1) by (simp add: map_of_eq_None_iff)
  then show ?thesis
    using assms(2)
    by (simp add: mapFinishReason_def property_get_def object_prototype_get_def truthy_def)
qed

text \<open>
  Claim C10. The claim says every value other than the four listed maps to
  \<open>end_turn\<close>. The code reads \<open>mapping[finishReason]\<close> from an object literal, so the
  finish reason \<open>constructor\<close> finds \<open>Object.prototype.constructor\<close>, a truthy function,
  which is returned in place of a stop reason.
\<close>

theorem mapFinishReason_constructor:
  "mapFinishReason (Some ''constructor'') = JFunction ''Object''
   \<and> mapFinishReason (Some ''constructor'') \<noteq> JStr ''end_turn''"
  by (simp add: mapFinishReason_def property_get_def finish_reason_mapping_def
      object_prototype_get_def truthy_def)

subsection \<open>Bedrock Converse request and response\<close>






lemma invokeBedrock_model:
  "invokeBedrock cfg st now upstream body = Inr r \<Longrightarrow> ar_model r = bedrock_modelId cfg"
  by (auto simp: invokeBedrock_def bedrock_to_anthropic_def split: if_splits sum.splits option.splits)

text \<open>
  Claim C2. The claim says the canonical response carries the model the caller
  requested. On the Bedrock path the response is built with \<open>model: modelId\<close>, the
  provider-configured \<open>config.bedrock.modelId\<close>: a request for \<open>claude-sonnet-4-5\<close>
  is answered with the configured Bedrock model identifier.
\<close>

theorem invokeBedrock_model_not_requested:
  "req_model example_request = Some ''claude-sonnet-4-5''
   \<and> map_sum err_message ar_model
        (invokeBedrock example_bedrock_config [] 0 example_upstream example_request)
       = Inr ''anthropic.claude-3-5-sonnet-20241022-v2:0''"
  by (simp add: invokeBedrock_def example_bedrock_config_def example_upstream_def
      example_request_def truthy_string_def http_ok_def bedrock_to_anthropic_def)

subsection \<open>Dispatcher fallback\<close>

lemma breaker_execute_trace:
  "snd (breaker_execute env p ev b) = [] \<or> snd (breaker_execute env p ev b) = [ev]"
  by (simp add: breaker_execute_def)

lemma invokeModel_trace_cases:
  "snd (invokeModel env options determined) =
     (let p = initial_provider options determined;
          t1 = snd (primary_attempt env p)
      in if (\<exists>e. fst (primary_attempt env p) = Inl e) \<and> shouldFallback env options p
         then t1 @ [FallbackAttempt p (env_fallbackProvider env)
                      (categorizeFailure (projl (fst (primary_attempt env p))))]
                 @ snd (breaker_execute env (env_fallbackProvider env)
                          (FallbackCall (fallback_backend (env_fallbackProvider env)))
                          (fallback_backend (env_fallbackProvider env)))
         else t1)"
  by (auto simp: invokeModel_def Let_def split: prod.splits sum.splits)

lemma primary_trace_no_fallback:
  "filter is_fallback_call (snd (primary_attempt env p)) = []"
  "filter is_fallback_attempt (snd (primary_attempt env p)) = []"
  by (simp_all add: primary_attempt_def breaker_execute_def)

text \<open>
  Claim C3 (as amended). For every request dispatched by invokeModel the fallback
  provider is attempted at most once and called at most once. A fallback is attempted
  exactly when the primary attempt failed (with any error), \<open>preferOllama\<close> is set,
  the primary provider is \<open>ollama\<close>, fallback is enabled and the caller did not
  disable it; the fallback backend is then called unless its own circuit breaker is
  open. The failure class is computed only as the recorded fallback reason.
\<close>

theorem fallback_at_most_once_and_ungated:
  "length (filter is_fallback_call (snd (invokeModel env options determined))) \<le> 1
   \<and> length (filter is_fallback_attempt (snd (invokeModel env options determined))) \<le> 1
   \<and> ((\<exists>ev \<in> set (snd (invokeModel env options determined)). is_fallback_attempt ev) \<longleftrightarrow>
        (\<exists>err. fst (primary_attempt env (initial_provider options determined)) = Inl err)
        \<and> env_preferOllama env \<and> initial_provider options determined = ''ollama''
        \<and> env_fallbackEnabled env \<and> \<not> disableFallback options)
   \<and> ((\<exists>ev \<in> set (snd (invokeModel env options determined)). is_fallback_call ev) \<longleftrightarrow>
        (\<exists>err. fst (primary_attempt env (initial_provider options determined)) = Inl err)
        \<and> env_preferOllama env \<and> initial_provider options determined = ''ollama''
        \<and> env_fallbackEnabled env \<and> \<not> disableFallback options
        \<and> \<not> env_breaker_open env (env_fallbackProvider env))"
proof -
  let ?p = "initial_provider options determined"
  let ?t = "snd (invokeModel env options determined)"
  let ?go = "(\<exists>e. fst (primary_attempt env ?p) = Inl e) \<and> shouldFallback env options ?p"
  have t: "?t = (if ?go
         then snd (primary_attempt env ?p) @ [FallbackAttempt ?p (env_fallbackProvider env)
                      (categorizeFailure (projl (fst (primary_attempt env ?p))))]
                 @ snd (breaker_execute env (env_fallbackProvider env)
                          (FallbackCall (fallback_backend (env_fallbackProvider env)))
                          (fallback_backend (env_fallbackProvider env)))
         else snd (primary_attempt env ?p))"
    using invokeModel_trace_cases [of env options determined] by (simp add: Let_def)
  have a: "length (filter is_fallback_call ?t) \<le> 1"
    unfolding t by (simp add: primary_trace_no_fallback breaker_execute_def)
  have b: "length (filter is_fallback_attempt ?t) \<le> 1"
    unfolding t by (simp add: primary_trace_no_fallback breaker_execute_def)
  have p1: "\<not> (\<exists>ev \<in> set (snd (primary_attempt env ?p)). is_fallback_attempt ev)"
    by (simp add: primary_attempt_def breaker_execute_def)
  have p2: "\<not> (\<exists>ev \<in> set (snd (primary_attempt env ?p)). is_fallback_call ev)"
    by (simp add: primary_attempt_def breaker_execute_def)
  have c: "(\<exists>ev \<in> set ?t. is_fallback_attempt ev) \<longleftrightarrow> ?go"
    unfolding t using p1 by auto
  have d: "(\<exists>ev \<in> set ?t. is_fallback_call ev) \<longleftrightarrow>
             ?go \<and> \<not> env_breaker_open env (env_fallbackProvider env)"
    unfolding t using p2 by (auto simp: breaker_execute_def)
  from a b c d show ?thesis
    unfolding shouldFallback_def by blast
qed

theorem fallback_at_most_once_and_ungated_witness:
  "snd (invokeModel unconfigured_ollama_env default_options ''ollama'') =
     [PrimaryCall Ollama, FallbackAttempt ''ollama'' ''databricks'' ''service_unavailable'',
      FallbackCall Databricks]
   \<and> length (filter is_fallback_call
        (snd (invokeModel unconfigured_ollama_env default_options ''ollama''))) = 1"
  using fallback_at_most_once_and_ungated [of unconfigured_ollama_env default_options "''ollama''"]
  by (simp add: invokeModel_def unconfigured_ollama_env_def default_options_def
      initial_provider_def primary_attempt_def breaker_execute_def invoke_backend_def
      truthy_string_def shouldFallback_def primary_backend_def fallback_backend_def
      categorizeFailure_def new_Error_def Let_def)

text \<open>
  Claim C3 as stated fails: with the Ollama endpoint missing, invokeOllama throws a
  configuration error, a class the error table marks as not fallback-eligible, and the
  fallback provider is called all the same.
\<close>

theorem fallback_on_config_error_counterexample:
  "map_sum err_kind ur_status
      (fst (primary_attempt unconfigured_ollama_env
              (initial_provider default_options ''ollama''))) = Inl Config
   \<and> \<not> spec_fallback_eligible Config
   \<and> FallbackCall Databricks
       \<in> set (snd (invokeModel unconfigured_ollama_env default_options ''ollama''))"
  by (simp add: invokeModel_def unconfigured_ollama_env_def default_options_def
      initial_provider_def primary_attempt_def breaker_execute_def invoke_backend_def
      truthy_string_def shouldFallback_def primary_backend_def fallback_backend_def
      categorizeFailure_def new_Error_def Let_def)

subsection \<open>Streaming requests are not retried\<close>

lemma streaming_request_posts:
  "posts (snd (streaming_request net s)) = Suc (posts s)"
  by (simp add: streaming_request_def fetch_def split: fetch_outcome.splits)

text \<open>
  Claim C5. For every request body with \<open>stream = true\<close>, performJsonRequest issues
  exactly one POST and its result does not depend on the retry wrapper at all; an error
  thrown by that POST is thrown to the caller, and a response, whatever its status, is
  returned as it came. Every other request is the retry wrapper applied to the
  JSON attempt, with the options 3, 1000 ms and 30000 ms when none are configured.
\<close>

theorem streaming_requests_not_retried:
  "(stream = Some True \<longrightarrow>
      posts (snd (performJsonRequest withRetry apiRetry is_json net stream s)) = posts s + 1
    \<and> performJsonRequest withRetry apiRetry is_json net stream s =
        performJsonRequest withRetry' apiRetry is_json net stream s
    \<and> (\<forall>e. net (posts s) = FetchFailed e \<longrightarrow>
          fst (performJsonRequest withRetry apiRetry is_json net stream s) = Inl e)
    \<and> (\<forall>status txt ct. net (posts s) = FetchResponse status txt ct \<longrightarrow>
          fst (performJsonRequest withRetry apiRetry is_json net stream s) =
            Inr \<lparr> jr_ok = http_ok status, jr_status = status, jr_json = None,
                  jr_text = None, jr_stream = Some txt, jr_contentType = ct \<rparr>))
   \<and> (stream \<noteq> Some True \<longrightarrow>
        performJsonRequest withRetry apiRetry is_json net stream s =
          withRetry (json_attempt is_json net) (retry_options_of apiRetry) s)
   \<and> retry_options_of None = \<lparr> maxRetries = 3, initialDelay = 1000, maxDelay = 30000 \<rparr>
   \<and> retry_options_of (Some \<lparr> cfg_maxRetries = None, cfg_initialDelay = None,
                               cfg_maxDelay = None \<rparr>)
       = \<lparr> maxRetries = 3, initialDelay = 1000, maxDelay = 30000 \<rparr>"
proof -
  have a: "performJsonRequest w apiRetry is_json net (Some True) s = streaming_request net s"
    for w
    by (simp add: performJsonRequest_def)
  have b: "\<forall>e. net (posts s) = FetchFailed e \<longrightarrow> fst (streaming_request net s) = Inl e"
    by (simp add: streaming_request_def fetch_def)
  have c: "\<forall>status txt ct. net (posts s) = FetchResponse status txt ct \<longrightarrow>
          fst (streaming_request net s) =
            Inr \<lparr> jr_ok = http_ok status, jr_status = status, jr_json = None,
                  jr_text = None, jr_stream = Some txt, jr_contentType = ct \<rparr>"
    by (simp add: streaming_request_def fetch_def)
  have d: "stream \<noteq> Some True \<Longrightarrow>
        performJsonRequest withRetry apiRetry is_json net stream s =
          withRetry (json_attempt is_json net) (retry_options_of apiRetry) s"
    by (simp add: performJsonRequest_def)
  have e: "retry_options_of None = \<lparr> maxRetries = 3, initialDelay = 1000, maxDelay = 30000 \<rparr>"
    by (simp add: retry_options_of_def num_or_def)
  have f: "retry_options_of (Some \<lparr> cfg_maxRetries = None, cfg_initialDelay = None,
                               cfg_maxDelay = None \<rparr>)
       = \<lparr> maxRetries = 3, initialDelay = 1000, maxDelay = 30000 \<rparr>"
    by (simp add: retry_options_of_def num_or_def)
  show ?thesis
    using b c d e f by (simp add: a streaming_request_posts)
qed

theorem streaming_requests_not_retried_witness:
  "posts (snd (performJsonRequest spec_withRetry None (\<lambda>t. True) flaky_network (Some True)
                 \<lparr> posts = 0 \<rparr>)) = 1
   \<and> map_sum err_message jr_status
        (fst (performJsonRequest spec_withRetry None (\<lambda>t. True) flaky_network (Some True)
                \<lparr> posts = 0 \<rparr>)) = Inr 503
   \<and> posts (snd (performJsonRequest spec_withRetry None (\<lambda>t. True) flaky_network (Some False)
                 \<lparr> posts = 0 \<rparr>)) = 2
   \<and> map_sum err_message jr_status
        (fst (performJsonRequest spec_withRetry None (\<lambda>t. True) flaky_network (Some False)
                \<lparr> posts = 0 \<rparr>)) = Inr 200"
  using streaming_requests_not_retried
    [of "Some True" spec_withRetry None "\<lambda>t. True" flaky_network "\<lparr> posts = 0 \<rparr>" spec_withRetry]
  by (simp add: performJsonRequest_def streaming_request_def fetch_def flaky_network_def
      spec_withRetry_def retry_options_of_def num_or_def json_attempt_def spec_retryable_def
      http_ok_def numeral_2_eq_2)

subsection \<open>Stored memories\<close>



















subsection \<open>Responses-shape shim\<close>

lemma isValid_lacking:
  "msg = None \<Longrightarrow> \<not> isValid msg"
  "msg = Some m \<Longrightarrow> ie_role m = None \<Longrightarrow> \<not> isValid msg"
  "msg = Some m \<Longrightarrow> ie_content m = None \<Longrightarrow> ie_tool_calls m = None
     \<Longrightarrow> ie_tool_call_id m = None \<Longrightarrow> \<not> isValid msg"
  by (simp_all add: isValid_def truthy_string_def truthy_content_def)

lemma convert_messages_array:
  "convert_messages (InputArray entries) =
     (if filter isValid entries = [] then Inl no_valid_messages
      else Inr (map (\<lambda>msg. clean_message (the msg)) (filter isValid entries)))"
  by (simp add: convert_messages_def Let_def)

lemma convertResponsesToChat_error_iff:
  "(\<exists>e. convertResponsesToChat r = Inl e) \<longleftrightarrow>
     (\<exists>entries. rr_input r = InputArray entries \<and> filter isValid entries = [])"
  by (cases "rr_input r")
     (auto simp: convertResponsesToChat_def convert_messages_def Let_def split: sum.splits)

text \<open>
  Claim C9 (as amended). When \<open>input\<close> is an array, every entry that is null, lacks a
  role, or lacks all of content, tool_calls and tool_call_id is dropped; the distinguished
  error is raised if and only if no entry survives the filter, and otherwise the
  surviving entries are converted in order. A surviving entry whose content is an array
  with at least one part of type \<open>text\<close> or \<open>input_text\<close> carrying non-empty text gets
  the non-empty texts joined by blank lines as its content; an array with no such part
  is kept as it is.
\<close>

theorem responses_shim_filtering:
  "(msg \<in> set entries \<and>
      (msg = None \<or> ie_role (the msg) = None
       \<or> (ie_content (the msg) = None \<and> ie_tool_calls (the msg) = None
           \<and> ie_tool_call_id (the msg) = None))
     \<longrightarrow> msg \<notin> set (filter isValid entries))
   \<and> (rr_input r = InputArray entries \<longrightarrow>
        (convertResponsesToChat r = Inl no_valid_messages \<longleftrightarrow> filter isValid entries = [])
        \<and> (filter isValid entries \<noteq> [] \<longrightarrow>
             map_sum id cq_messages (convertResponsesToChat r) =
               Inr (map (\<lambda>m. clean_message (the m)) (filter isValid entries))))
   \<and> (isValid (Some e) \<and> ie_content e = Some (ContentParts parts) \<longrightarrow>
        ch_content (clean_message e) =
          (if textParts parts \<noteq> []
           then Some (ContentString (join ''\<newline>\<newline>'' (textParts parts)))
           else Some (ContentParts parts)))
   \<and> textParts parts =
        filter (\<lambda>t. t \<noteq> []) (map part_text (filter is_text_part parts))"
proof -
  have a: "msg \<in> set entries \<and>
      (msg = None \<or> ie_role (the msg) = None
       \<or> (ie_content (the msg) = None \<and> ie_tool_calls (the msg) = None
           \<and> ie_tool_call_id (the msg) = None))
     \<longrightarrow> msg \<notin> set (filter isValid entries)"
    by (cases msg) (auto simp: isValid_def truthy_string_def truthy_content_def)
  have b: "rr_input r = InputArray entries \<longrightarrow>
        (convertResponsesToChat r = Inl no_valid_messages \<longleftrightarrow> filter isValid entries = [])
        \<and> (filter isValid entries \<noteq> [] \<longrightarrow>
             map_sum id cq_messages (convertResponsesToChat r) =
               Inr (map (\<lambda>m. clean_message (the m)) (filter isValid entries)))"
    by (simp add: convertResponsesToChat_def convert_messages_array)
  have c: "isValid (Some e) \<and> ie_content e = Some (ContentParts parts) \<longrightarrow>
        ch_content (clean_message e) =
          (if textParts parts \<noteq> []
           then Some (ContentString (join ''\<newline>\<newline>'' (textParts parts)))
           else Some (ContentParts parts))"
    by (simp add: clean_message_def clean_content_def truthy_content_def)
  have d: "textParts parts =
        filter (\<lambda>t. t \<noteq> []) (map part_text (filter is_text_part parts))"
    by (simp add: textParts_def)
  from a b c d show ?thesis by blast
qed

theorem responses_shim_filtering_witness:
  "map_sum err_message (\<lambda>q. map ch_content (cq_messages q))
     (convertResponsesToChat (request_with_input (InputArray
        [None,
         entry_with_content (ContentParts [text_part ''a'', text_part '''', text_part ''b'']),
         Some \<lparr> ie_role = None, ie_content = Some (ContentString ''x''), ie_tool_calls = None,
                ie_tool_call_id = None, ie_name = None \<rparr>])))
     = Inr [Some (ContentString ''a\<newline>\<newline>b'')]
   \<and> map_sum err_message cq_messages
        (convertResponsesToChat (request_with_input (InputArray [None])))
     = Inl ''Responses API: No valid messages after filtering. All messages were invalid.''"
  using responses_shim_filtering
    [of None "[None]" "request_with_input (InputArray [None])"]
  by (simp add: convertResponsesToChat_def convert_messages_def request_with_input_def
      entry_with_content_def text_part_def isValid_def truthy_string_def truthy_content_def
      clean_message_def clean_content_def textParts_def is_text_part_def part_text_def
      keep_truthy_def no_valid_messages_def new_Error_def num_or_def Let_def)

text \<open>
  Claim C9 as stated fails: a surviving entry whose only content part is a text part
  with empty text keeps its content array; it is not flattened into a string.
\<close>

theorem responses_shim_flatten_counterexample:
  "isValid (entry_with_content (ContentParts [text_part '''']))
   \<and> map_sum err_message (\<lambda>q. map ch_content (cq_messages q))
        (convertResponsesToChat (request_with_input (InputArray
           [entry_with_content (ContentParts [text_part ''''])])))
       = Inr [Some (ContentParts [text_part ''''])]
   \<and> spec_flatten [text_part ''''] = ContentString ''''
   \<and> ContentParts [text_part ''''] \<noteq> spec_flatten [text_part '''']"
  by (simp add: convertResponsesToChat_def convert_messages_def request_with_input_def
      entry_with_content_def text_part_def isValid_def truthy_string_def truthy_content_def
      clean_message_def clean_content_def textParts_def is_text_part_def part_text_def
      keep_truthy_def spec_flatten_def num_or_def Let_def)

subsection \<open>Complexity analyzer\<close>

lemma scoreTaskType_reason_force_local:
  "tt_reason (scoreTaskType s) = ''force_local'' \<longleftrightarrow> matches_any FORCE_LOCAL_PATTERNS s"
  by (simp add: scoreTaskType_def)

lemma scoreTaskType_reason_force_cloud:
  "tt_reason (scoreTaskType s) = ''force_cloud'' \<longleftrightarrow>
     matches_any FORCE_CLOUD_PATTERNS s \<and> \<not> matches_any FORCE_LOCAL_PATTERNS s"
  by (simp add: scoreTaskType_def)

lemma scoreTaskType_le: "tt_score (scoreTaskType s) \<le> 25"
  by (simp add: scoreTaskType_def)

lemma scoreTokens_le: "scoreTokens p \<le> 20"
  by (simp add: scoreTokens_def Let_def)

lemma scoreTools_le: "scoreTools p \<le> 20"
  by (simp add: scoreTools_def Let_def)

lemma ca_score_eq:
  "ca_score (analyzeComplexity mode payload) =
     min (min (scoreTokens payload + scoreTools payload
               + tt_score (scoreTaskType (extractContent payload))
               + scoreCodeComplexity (extractContent payload)
               + scoreReasoning (extractContent payload)) 100
          + (if length (req_messages payload) > 10 then 5
             else if length (req_messages payload) > 5 then 2 else 0)) 100"
  by (simp add: analyzeComplexity_def Let_def)

lemma ca_recommendation_eq:
  "ca_recommendation (analyzeComplexity mode payload) =
     (if tt_reason (scoreTaskType (extractContent payload)) = ''force_local'' then ''local''
      else if tt_reason (scoreTaskType (extractContent payload)) = ''force_cloud'' then ''cloud''
      else if ca_score (analyzeComplexity mode payload) \<ge> getThreshold mode
      then ''cloud'' else ''local'')"
  by (simp add: analyzeComplexity_def Let_def)

text \<open>
  Claim C6 (as amended). For every request payload analyzeComplexity returns a total
  score between 0 and 100 (the sum of the five subscores is itself at most 100). If the
  text of the last user message matches a force-local pattern the recommendation is
  \<open>local\<close> whatever the score; if it matches a force-cloud pattern and no force-local
  pattern the recommendation is \<open>cloud\<close>.
\<close>

theorem complexity_score_and_force_patterns:
  "0 \<le> ca_score (analyzeComplexity mode payload)
   \<and> ca_score (analyzeComplexity mode payload) \<le> 100
   \<and> scoreTokens payload + scoreTools payload
       + tt_score (scoreTaskType (extractContent payload))
       + scoreCodeComplexity (extractContent payload)
       + scoreReasoning (extractContent payload) \<le> 100
   \<and> (matches_any FORCE_LOCAL_PATTERNS (extractContent payload) \<longrightarrow>
        ca_recommendation (analyzeComplexity mode payload) = ''local'')
   \<and> (matches_any FORCE_CLOUD_PATTERNS (extractContent payload)
        \<and> \<not> matches_any FORCE_LOCAL_PATTERNS (extractContent payload) \<longrightarrow>
        ca_recommendation (analyzeComplexity mode payload) = ''cloud'')"
proof -
  have a: "ca_score (analyzeComplexity mode payload) \<le> 100"
    unfolding ca_score_eq by simp
  have b: "scoreTokens payload + scoreTools payload
       + tt_score (scoreTaskType (extractContent payload))
       + scoreCodeComplexity (extractContent payload)
       + scoreReasoning (extractContent payload) \<le> 100"
    using scoreTokens_le [of payload] scoreTools_le [of payload]
      scoreTaskType_le [of "extractContent payload"]
    by (simp add: scoreCodeComplexity_def scoreReasoning_def)
  have c: "matches_any FORCE_LOCAL_PATTERNS (extractContent payload) \<longrightarrow>
        ca_recommendation (analyzeComplexity mode payload) = ''local''"
    unfolding ca_recommendation_eq by (simp add: scoreTaskType_reason_force_local)
  have d: "matches_any FORCE_CLOUD_PATTERNS (extractContent payload)
        \<and> \<not> matches_any FORCE_LOCAL_PATTERNS (extractContent payload) \<longrightarrow>
        ca_recommendation (analyzeComplexity mode payload) = ''cloud''"
    unfolding ca_recommendation_eq
    by (simp add: scoreTaskType_reason_force_local scoreTaskType_reason_force_cloud)
  from a b c d show ?thesis by simp
qed

lemma both_force_eval:
  "matches_any FORCE_LOCAL_PATTERNS ''what time is it, code review''"
  "matches_any FORCE_CLOUD_PATTERNS ''what time is it, code review''"
  by code_simp+

lemma security_audit_force:
  "\<not> matches_any FORCE_LOCAL_PATTERNS ''run a security audit''"
  "matches_any FORCE_CLOUD_PATTERNS ''run a security audit''"
  by code_simp+

lemma extractContent_user_request: "extractContent (user_request s) = s"
  by (simp add: extractContent_def user_request_def message_text_def)

theorem complexity_score_and_force_patterns_witness:
  "ca_score (analyzeComplexity None (user_request ''run a security audit'')) \<le> 100
   \<and> ca_recommendation (analyzeComplexity None
      (user_request ''run a security audit'')) = ''cloud''
   \<and> matches_any FORCE_CLOUD_PATTERNS
        (extractContent (user_request ''run a security audit''))"
  using complexity_score_and_force_patterns
    [of None "user_request ''run a security audit''"]
  by (simp add: security_audit_force extractContent_user_request)

text \<open>
  Claim C6 as stated fails: scoreTaskType tries the force-local patterns first, and the
  second of them is not anchored at the end, so a text can match both families; it is
  then recommended \<open>local\<close> although it matches a force-cloud pattern.
\<close>

theorem force_cloud_overridden_counterexample:
  "matches_any FORCE_CLOUD_PATTERNS
     (extractContent (user_request ''what time is it, code review''))
   \<and> ca_recommendation (analyzeComplexity None
        (user_request ''what time is it, code review'')) = ''local''"
  by (simp add: extractContent_user_request both_force_eval ca_recommendation_eq
      scoreTaskType_reason_force_local)

subsection \<open>Full-text query sanitizer\<close>

lemma dquote_not_space: "\<not> is_space dquote"
  by (simp add: is_space_def dquote_def char_code_def)

lemma paired_Cons_other: "c \<noteq> dquote \<Longrightarrow> paired (c # r) = paired r"
  by (cases r) simp_all

lemma paired_quote_quote: "paired (dquote # dquote # r) = paired r"
  by simp

lemma paired_escape_quotes: "paired (escape_quotes s)"
proof (induction s)
  case Nil
  then show ?case by (simp add: escape_quotes_def)
next
  case (Cons c s)
  then show ?case
    by (cases "c = dquote") (simp_all add: escape_quotes_def paired_Cons_other)
qed

lemma paired_blank_other: "paired s \<Longrightarrow> paired (blank_other s)"
proof (induction s rule: paired.induct)
  case 1
  then show ?case by (simp add: blank_other_def)
next
  case (2 c)
  then show ?case by (simp add: blank_other_def dquote_def)
next
  case (3 c d r)
  show ?case
  proof (cases "c = dquote")
    case True
    with 3 show ?thesis by (simp add: blank_other_def)
  next
    case False
    then have "paired (blank_other (d # r))" using 3 by simp
    moreover have "(if is_word_char c \<or> is_space c \<or> c = dquote then c else CHR '' '') \<noteq> dquote"
      using False by (simp add: dquote_def)
    ultimately show ?thesis
      using paired_Cons_other [of "if is_word_char c \<or> is_space c \<or> c = dquote then c else CHR '' ''"
          "blank_other (d # r)"]
      by (simp add: blank_other_def)
  qed
qed

lemma paired_collapse: "paired s \<Longrightarrow> paired (collapse b s)"
proof (induction s arbitrary: b rule: paired.induct)
  case 1
  then show ?case by simp
next
  case (2 c)
  then show ?case by (simp add: dquote_def)
next
  case (3 c d r)
  show ?case
  proof (cases "c = dquote")
    case True
    with 3 show ?thesis by (simp add: dquote_not_space)
  next
    case False
    then have ih: "paired (collapse b' (d # r))" for b' using 3 by simp
    have sp: "CHR '' '' \<noteq> dquote" by (simp add: dquote_def)
    show ?thesis
      using False ih [of True] ih [of False] sp
        paired_Cons_other [of c "collapse False (d # r)"]
        paired_Cons_other [of "CHR '' ''" "collapse True (d # r)"]
      by (simp del: collapse.simps(2) add: collapse.simps(2) [of b c "d # r"])
  qed
qed

lemma paired_dropWhile_space: "paired s \<Longrightarrow> paired (dropWhile is_space s)"
proof (induction s)
  case Nil
  then show ?case by simp
next
  case (Cons c s)
  show ?case
  proof (cases "is_space c")
    case True
    then have "c \<noteq> dquote" using dquote_not_space by auto
    then show ?thesis using Cons True by (simp add: paired_Cons_other)
  next
    case False
    then show ?thesis using Cons by simp
  qed
qed

lemma trim_end_Cons:
  "trim_end (c # s) = (if trim_end s = [] \<and> is_space c then [] else c # trim_end s)"
  by (simp split: list.splits)

lemma trim_end_quote: "trim_end (dquote # s) = dquote # trim_end s"
  by (simp add: trim_end_Cons dquote_not_space del: trim_end.simps)

lemma paired_trim_end: "paired s \<Longrightarrow> paired (trim_end s)"
proof (induction s rule: paired.induct)
  case 1
  then show ?case by simp
next
  case (2 c)
  then show ?case by simp
next
  case (3 c d r)
  show ?case
  proof (cases "c = dquote")
    case True
    with 3 show ?thesis by (simp add: trim_end_quote del: trim_end.simps)
  next
    case False
    then have ih: "paired (trim_end (d # r))" using 3 by simp
    show ?thesis
      using False ih paired_Cons_other [of c "trim_end (d # r)"]
      by (simp del: trim_end.simps add: trim_end_Cons [of c "d # r"])
  qed
qed

lemma paired_squeeze: "paired s \<Longrightarrow> paired (squeeze s)"
  by (simp add: squeeze_def trim_def paired_collapse paired_dropWhile_space paired_trim_end)

lemma paired_sanitized: "paired (sanitized query)"
  unfolding sanitized_def
  by (intro paired_squeeze paired_blank_other paired_escape_quotes)

lemma scan_quoted_paired:
  "paired b \<Longrightarrow> \<exists>t. scan_quoted (b @ [dquote]) = Some (t, [])"
proof (induction b rule: paired.induct)
  case 1
  then show ?case by simp
next
  case (2 c)
  then show ?case by simp
next
  case (3 c d r)
  show ?case
  proof (cases "c = dquote")
    case True
    with 3 obtain t where "scan_quoted (r @ [dquote]) = Some (t, [])" by auto
    then show ?thesis using True 3 by simp
  next
    case False
    with 3 obtain t where "scan_quoted ((d # r) @ [dquote]) = Some (t, [])" by auto
    then show ?thesis using False by simp
  qed
qed

lemma fts5_accepts_quoted:
  assumes "paired b"
  shows "fts5_accepts ([dquote] @ b @ [dquote])"
proof -
  obtain t where t: "scan_quoted (b @ [dquote]) = Some (t, [])"
    using scan_quoted_paired [OF assms] by blast
  have "\<not> fts5_space dquote"
    by (simp add: fts5_space_def dquote_def char_code_def)
  then have "fts5_tokens (length ([dquote] @ b @ [dquote])) ([dquote] @ b @ [dquote])
           = Some [Phrase t]"
    using t by simp
  then show ?thesis
    unfolding fts5_accepts_def by simp
qed

lemma paired_empty_query: "paired ''empty query''"
  by (simp add: dquote_def)

lemma searchMemories_total:
  "\<exists>rows. searchMemories db_all convert q = Inr rows"
  by (simp add: searchMemories_def split: sum.splits)

text \<open>
  Claim C7 (as amended). For every input string whose cleaned text contains none of
  the words AND, OR, NOT (in any letter case), prepareFTS5Query returns one
  double-quoted phrase in which every embedded quote is doubled, and the FTS5 query
  syntax accepts it. When such a word is present, the sanitized text is returned
  without quotes, to be parsed by the engine as an expression. searchMemories never
  throws: it returns a list for every query, the empty list when the engine rejects
  the query.
\<close>

theorem fts_query_is_phrase_without_operators:
  "(\<not> hasFTS5Operators query \<longrightarrow>
      fts5_accepts (prepareFTS5Query query)
      \<and> (\<exists>body. prepareFTS5Query query = [dquote] @ body @ [dquote] \<and> paired body))
   \<and> (hasFTS5Operators query \<and> strip_and_squeeze query \<noteq> [] \<longrightarrow>
        prepareFTS5Query query = sanitized query)
   \<and> (\<exists>rows. searchMemories db_all convert q = Inr rows)
   \<and> (truthy_string q \<and> db_all (prepareFTS5Query (the q)) = Inl err \<longrightarrow>
        searchMemories db_all convert q = Inr [])"
proof -
  have a: "\<not> hasFTS5Operators query \<longrightarrow>
      fts5_accepts (prepareFTS5Query query)
      \<and> (\<exists>body. prepareFTS5Query query = [dquote] @ body @ [dquote] \<and> paired body)"
  proof (cases "strip_and_squeeze query = []")
    case True
    then have "prepareFTS5Query query = [dquote] @ ''empty query'' @ [dquote]"
      by (simp add: prepareFTS5Query_def)
    then show ?thesis
      using fts5_accepts_quoted [OF paired_empty_query] paired_empty_query by metis
  next
    case False
    show ?thesis
    proof
      assume "\<not> hasFTS5Operators query"
      then have "prepareFTS5Query query = [dquote] @ sanitized query @ [dquote]"
        using False by (simp add: prepareFTS5Query_def)
      then show "fts5_accepts (prepareFTS5Query query)
        \<and> (\<exists>body. prepareFTS5Query query = [dquote] @ body @ [dquote] \<and> paired body)"
        using fts5_accepts_quoted [OF paired_sanitized [of query]] paired_sanitized [of query]
        by metis
    qed
  qed
  have b: "hasFTS5Operators query \<and> strip_and_squeeze query \<noteq> [] \<longrightarrow>
        prepareFTS5Query query = sanitized query"
    by (simp add: prepareFTS5Query_def)
  have c: "\<exists>rows. searchMemories db_all convert q = Inr rows"
    by (rule searchMemories_total)
  have d: "truthy_string q \<and> db_all (prepareFTS5Query (the q)) = Inl err \<longrightarrow>
        searchMemories db_all convert q = Inr []"
    by (simp add: searchMemories_def)
  from a b c d show ?thesis by blast
qed

lemma prepare_examples:
  "prepareFTS5Query ''AND'' = ''AND''"
  "prepareFTS5Query ''cats AND'' = ''cats AND''"
  "\<not> hasFTS5Operators ''<b>hello</b> world?''"
  "prepareFTS5Query ''<b>hello</b> world?'' = [dquote] @ ''hello world'' @ [dquote]"
  by code_simp+

theorem fts_query_is_phrase_without_operators_witness:
  "prepareFTS5Query ''<b>hello</b> world?'' = [dquote] @ ''hello world'' @ [dquote]
   \<and> fts5_accepts (prepareFTS5Query ''<b>hello</b> world?'')
   \<and> searchMemories (\<lambda>q. Inl example_engine_error) (\<lambda>r :: nat. Some r) (Some ''AND'') = Inr []"
  using fts_query_is_phrase_without_operators
    [of "''<b>hello</b> world?''" "\<lambda>q. Inl example_engine_error" "\<lambda>r :: nat. Some r" "Some ''AND''" example_engine_error]
  by (simp add: prepare_examples truthy_string_def)

text \<open>
  Claim C7 as stated fails: the input \<open>AND\<close> is returned as the bare keyword
  \<open>AND\<close>, which is not a query of the FTS5 syntax.
\<close>

theorem fts_operator_passthrough_counterexample:
  "prepareFTS5Query ''AND'' = ''AND'' \<and> \<not> fts5_accepts (prepareFTS5Query ''AND'')"
  by (simp add: prepare_examples(1) fts5_accepts_def fts5_space_def is_bareword_char_def
      is_word_char_def char_code_def dquote_def bareword_token_def)

end
